theory Spec2Isabelle
  imports Complex_Main "HOL-Library.Monad_Syntax"
begin

section \<open>Data model of \<^verbatim>\<open>backend/horary_engine.py\<close>\<close>

text \<open>
  The enums of the engine are datatypes, its dataclasses are records. Python floats are
  modelled as \<^typ>\<open>real\<close> (exact arithmetic, no rounding), Python ints as \<^typ>\<open>int\<close>.
  A real number stands for the exact value of a float: where a comparison of the code,
  such as \<^verbatim>\<open>orb_diff <= max_orb\<close>, falls within the rounding error of equality, the code
  may decide it the other way than the model does. The closed examples below stay away
  from such boundaries.
  A Python dict whose iteration order is observable is an association list in insertion
  order (keys distinct); a lookup \<^verbatim>\<open>d[k]\<close> that can raise \<^verbatim>\<open>KeyError\<close> is
  \<^const>\<open>map_of\<close>, and a function that can raise returns an \<^typ>\<open>'a option\<close>
  with \<^const>\<open>None\<close> for the raised exception.
\<close>

datatype Planet = SUN | MOON | MERCURY | VENUS | MARS | JUPITER | SATURN | ASC | MC

fun planet_value :: "Planet \<Rightarrow> string" where
  "planet_value SUN = ''Sun''"
| "planet_value MOON = ''Moon''"
| "planet_value MERCURY = ''Mercury''"
| "planet_value VENUS = ''Venus''"
| "planet_value MARS = ''Mars''"
| "planet_value JUPITER = ''Jupiter''"
| "planet_value SATURN = ''Saturn''"
| "planet_value ASC = ''Ascendant''"
| "planet_value MC = ''Midheaven''"

datatype Aspect = CONJUNCTION | SEXTILE | SQUARE | TRINE | OPPOSITION

text \<open>\<^verbatim>\<open>for aspect_type in Aspect\<close> iterates in definition order.\<close>

definition all_aspects :: "Aspect list" where
  "all_aspects = [CONJUNCTION, SEXTILE, SQUARE, TRINE, OPPOSITION]"

fun degrees :: "Aspect \<Rightarrow> real" where
  "degrees CONJUNCTION = 0"
| "degrees SEXTILE = 60"
| "degrees SQUARE = 90"
| "degrees TRINE = 120"
| "degrees OPPOSITION = 180"

fun config_key :: "Aspect \<Rightarrow> string" where
  "config_key CONJUNCTION = ''conjunction''"
| "config_key SEXTILE = ''sextile''"
| "config_key SQUARE = ''square''"
| "config_key TRINE = ''trine''"
| "config_key OPPOSITION = ''opposition''"

fun display_name :: "Aspect \<Rightarrow> string" where
  "display_name CONJUNCTION = ''Conjunction''"
| "display_name SEXTILE = ''Sextile''"
| "display_name SQUARE = ''Square''"
| "display_name TRINE = ''Trine''"
| "display_name OPPOSITION = ''Opposition''"

datatype Sign = ARIES | TAURUS | GEMINI | CANCER | LEO | VIRGO | LIBRA | SCORPIO
  | SAGITTARIUS | CAPRICORN | AQUARIUS | PISCES

definition all_signs :: "Sign list" where
  "all_signs = [ARIES, TAURUS, GEMINI, CANCER, LEO, VIRGO, LIBRA, SCORPIO,
     SAGITTARIUS, CAPRICORN, AQUARIUS, PISCES]"

fun start_degree :: "Sign \<Rightarrow> real" where
  "start_degree ARIES = 0"
| "start_degree TAURUS = 30"
| "start_degree GEMINI = 60"
| "start_degree CANCER = 90"
| "start_degree LEO = 120"
| "start_degree VIRGO = 150"
| "start_degree LIBRA = 180"
| "start_degree SCORPIO = 210"
| "start_degree SAGITTARIUS = 240"
| "start_degree CAPRICORN = 270"
| "start_degree AQUARIUS = 300"
| "start_degree PISCES = 330"

fun sign_name :: "Sign \<Rightarrow> string" where
  "sign_name ARIES = ''Aries''"
| "sign_name TAURUS = ''Taurus''"
| "sign_name GEMINI = ''Gemini''"
| "sign_name CANCER = ''Cancer''"
| "sign_name LEO = ''Leo''"
| "sign_name VIRGO = ''Virgo''"
| "sign_name LIBRA = ''Libra''"
| "sign_name SCORPIO = ''Scorpio''"
| "sign_name SAGITTARIUS = ''Sagittarius''"
| "sign_name CAPRICORN = ''Capricorn''"
| "sign_name AQUARIUS = ''Aquarius''"
| "sign_name PISCES = ''Pisces''"

fun ruler :: "Sign \<Rightarrow> Planet" where
  "ruler ARIES = MARS"
| "ruler TAURUS = VENUS"
| "ruler GEMINI = MERCURY"
| "ruler CANCER = MOON"
| "ruler LEO = SUN"
| "ruler VIRGO = MERCURY"
| "ruler LIBRA = VENUS"
| "ruler SCORPIO = MARS"
| "ruler SAGITTARIUS = JUPITER"
| "ruler CAPRICORN = SATURN"
| "ruler AQUARIUS = SATURN"
| "ruler PISCES = JUPITER"

datatype SolarCondition = CAZIMI | COMBUSTION | UNDER_BEAMS | FREE

fun condition_name :: "SolarCondition \<Rightarrow> string" where
  "condition_name CAZIMI = ''Cazimi''"
| "condition_name COMBUSTION = ''Combustion''"
| "condition_name UNDER_BEAMS = ''Under the Beams''"
| "condition_name FREE = ''Free of Sun''"

record SolarAnalysis =
  sa_planet :: Planet
  distance_from_sun :: real
  condition :: SolarCondition
  exact_cazimi :: bool
  traditional_exception :: bool

record PlanetPosition =
  planet :: Planet
  longitude :: real
  latitude :: real
  house :: int
  sign :: Sign
  dignity_score :: int
  retrograde :: bool
  speed :: real

text \<open>
  An f-string before it is rendered: the literal pieces and the interpolated values, in
  order (\<open>I\<close> an int, \<open>SI\<close> an int with \<^verbatim>\<open>:+d\<close>, \<open>F1\<close> a float with \<^verbatim>\<open>:.1f\<close>,
  \<open>R\<close> a float as \<^verbatim>\<open>str\<close> prints it). The engine's reasoning lines are kept in this
  form.
\<close>

datatype frag = S string | I int | SI int | F1 real | R real

type_synonym fstring = "frag list"

record AspectInfo =
  planet1 :: Planet
  planet2 :: Planet
  aspect :: Aspect
  orb :: real
  applying :: bool
  exact_time :: "real option"
  degrees_to_exact :: real

record LunarAspect =
  la_planet :: Planet
  la_aspect :: Aspect
  la_orb :: real
  degrees_difference :: real
  perfection_eta_days :: "real option"
  perfection_eta_description :: fstring
  la_applying :: bool

text \<open>
  \<^verbatim>\<open>HoraryChart\<close>. The fields \<^verbatim>\<open>date_time\<close>, \<^verbatim>\<open>date_time_utc\<close>, \<^verbatim>\<open>timezone_info\<close>,
  \<^verbatim>\<open>location\<close> and \<^verbatim>\<open>location_name\<close> are read by no function modelled here and are left
  out. \<^verbatim>\<open>AspectInfo.exact_time\<close> is the moment of exactness when there is one.
\<close>

record HoraryChart =
  planets :: "(Planet \<times> PlanetPosition) list"
  aspects :: "AspectInfo list"
  houses :: "real list"
  house_rulers :: "(int \<times> Planet) list"
  ascendant :: real
  midheaven :: real
  solar_analyses :: "(Planet \<times> SolarAnalysis) list"
  julian_day :: real
  moon_last_aspect :: "LunarAspect option"
  moon_next_aspect :: "LunarAspect option"

subsection \<open>Configuration\<close>

text \<open>
  The module \<^verbatim>\<open>horary_config\<close> and its YAML file are not among the sources. Every value
  the engine reads through \<^verbatim>\<open>cfg()\<close> is a field of the record \<open>config\<close>, which the
  modelled functions take as their first argument; the sections of the configuration
  are records of their own, reached through the fields named \<open>cfg_\<dots>\<close>.
\<close>

record timing_cfg =
  stationary_speed_threshold :: real
  timing_precision_days :: real
  max_future_days :: real

text \<open>
  \<^verbatim>\<open>orbs.moieties\<close> may be absent (\<^verbatim>\<open>hasattr\<close>); when present it maps planet names to
  moieties. \<open>orbs_dict\<close> is \<^verbatim>\<open>cfg().orbs.__dict__\<close> as far as \<^verbatim>\<open>Aspect.orb\<close> reads it.
\<close>

record orbs_cfg =
  moieties :: "(string \<times> real) list option"
  orbs_dict :: "(string \<times> real) list"
  sun_orb_bonus :: real
  moon_orb_bonus :: real
  void_orb_deg :: real

record void_exceptions_cfg =
  cancer :: bool
  sagittarius :: bool
  taurus :: bool

record translation_cfg =
  require_speed_advantage :: bool
  require_proper_sequence :: bool

record moon_cfg =
  void_rule :: string
  cfg_void_exceptions :: void_exceptions_cfg
  cfg_translation :: translation_cfg

record via_combusta_cfg =
  libra_start :: real
  scorpio_end :: real

record radicality_cfg =
  asc_too_early :: real
  asc_too_late :: real
  saturn_7th_enabled :: bool
  via_combusta_enabled :: bool
  cfg_via_combusta :: via_combusta_cfg

record perfection_cfg =
  direct_with_mutual_rulership :: int
  direct_with_mutual_exaltation :: int
  direct_basic :: int
  translation_of_light :: int
  collection_of_light :: int
  reception_only :: int

record denial_cfg =
  prohibition :: int
  frustration_retrograde :: int

record confidence_cfg =
  base_confidence :: int
  cazimi_bonus :: int
  cfg_perfection :: perfection_cfg
  cfg_denial :: denial_cfg

record config =
  cfg_timing :: timing_cfg
  cfg_orbs :: orbs_cfg
  cfg_moon :: moon_cfg
  cfg_radicality :: radicality_cfg
  cfg_confidence :: confidence_cfg
  retrograde_automatic_denial :: bool

subsection \<open>Python arithmetic\<close>

text \<open>Python's \<^verbatim>\<open>x % m\<close> on floats, for a positive modulus.\<close>

definition pymod :: "real \<Rightarrow> real \<Rightarrow> real" where
  "pymod x m = x - m * of_int \<lfloor>x / m\<rfloor>"

text \<open>\<^verbatim>\<open>min(xs, key=f)\<close>: the first element with the least key; \<^verbatim>\<open>ValueError\<close> on [].\<close>

fun min_by_acc :: "('a \<Rightarrow> real) \<Rightarrow> 'a \<Rightarrow> 'a list \<Rightarrow> 'a" where
  "min_by_acc f best [] = best"
| "min_by_acc f best (x # xs) = min_by_acc f (if f x < f best then x else best) xs"

definition min_by :: "('a \<Rightarrow> real) \<Rightarrow> 'a list \<Rightarrow> 'a option" where
  "min_by f xs = (case xs of [] \<Rightarrow> None | x # rest \<Rightarrow> Some (min_by_acc f x rest))"

text \<open>Truth value of an \<^verbatim>\<open>Optional[float]\<close>: \<^verbatim>\<open>None\<close> and \<^verbatim>\<open>0.0\<close> are false.\<close>

definition truthy :: "real option \<Rightarrow> bool" where
  "truthy d = (case d of None \<Rightarrow> False | Some x \<Rightarrow> x \<noteq> 0)"

section \<open>Aspect Engine\<close>

text \<open>
  Modelled from the spec: \<^verbatim>\<open>days_to_sign_exit\<close> of the module \<^verbatim>\<open>_horary_math\<close>, which is
  not among the sources. The spec calls it the time for a body to cross the next sign
  boundary in its current direction of motion; the engine's own stand-in for it, the
  \<^verbatim>\<open>except ImportError\<close> branch of \<^verbatim>\<open>_days_to_sign_exit\<close>, computes it as below. The
  functions that call it take it as the parameter \<open>dse\<close>.
\<close>

definition days_to_sign_exit :: "real \<Rightarrow> real \<Rightarrow> real option" where
  "days_to_sign_exit lon spd =
     (let degrees_in_sign = pymod lon 30;
          degrees_remaining = (if spd > 0 then 30 - degrees_in_sign else degrees_in_sign)
      in if spd \<noteq> 0 then Some (degrees_remaining / \<bar>spd\<bar>) else None)"

text \<open>
  \<^verbatim>\<open>while separation > 180: separation -= 360\<close> and
  \<^verbatim>\<open>while separation < -180: separation += 360\<close>.
\<close>

function wrap_down :: "real \<Rightarrow> real" where
  "wrap_down s = (if s > 180 then wrap_down (s - 360) else s)"
  by pat_completeness auto
termination
proof (relation "measure (\<lambda>s. nat \<lceil>s / 360\<rceil>)")
  show "wf (measure (\<lambda>s::real. nat \<lceil>s / 360\<rceil>))" by simp
next
  fix s :: real
  assume "180 < s"
  then have "0 < \<lceil>s / 360\<rceil>" by (simp add: ceiling_less_iff less_ceiling_iff)
  moreover have "\<lceil>(s - 360) / 360\<rceil> = \<lceil>s / 360\<rceil> - 1"
    by (simp add: diff_divide_distrib)
  ultimately show "(s - 360, s) \<in> measure (\<lambda>s. nat \<lceil>s / 360\<rceil>)" by simp
qed

function wrap_up :: "real \<Rightarrow> real" where
  "wrap_up s = (if s < - 180 then wrap_up (s + 360) else s)"
  by pat_completeness auto
termination
proof (relation "measure (\<lambda>s. nat \<lceil>- s / 360\<rceil>)")
  show "wf (measure (\<lambda>s::real. nat \<lceil>- s / 360\<rceil>))" by simp
next
  fix s :: real
  assume neg: "s < - 180"
  define t where "t = - s / 360"
  have "0 < t" using neg by (simp add: t_def)
  then have pos: "0 < \<lceil>t\<rceil>" by (simp add: less_ceiling_iff)
  have "- (s + 360) / 360 = t - 1" by (simp add: t_def diff_divide_distrib)
  then have "\<lceil>- (s + 360) / 360\<rceil> = \<lceil>t - 1\<rceil>" by (simp only:)
  then have "\<lceil>- (s + 360) / 360\<rceil> = \<lceil>t\<rceil> - 1" by (simp only: ceiling_diff_one)
  with pos have "nat \<lceil>- (s + 360) / 360\<rceil> < nat \<lceil>- s / 360\<rceil>"
    unfolding t_def by linarith
  then show "(s + 360, s) \<in> measure (\<lambda>s. nat \<lceil>- s / 360\<rceil>)" by (simp only: in_measure)
qed

declare wrap_down.simps [simp del] wrap_up.simps [simp del]

lemma wrap_down_done [simp]: "s \<le> 180 \<Longrightarrow> wrap_down s = s"
  by (subst wrap_down.simps) simp

lemma wrap_down_step [simp]: "180 < s \<Longrightarrow> wrap_down s = wrap_down (s - 360)"
  by (subst wrap_down.simps) simp

lemma wrap_up_done [simp]: "- 180 \<le> s \<Longrightarrow> wrap_up s = s"
  by (subst wrap_up.simps) simp

lemma wrap_up_step [simp]: "s < - 180 \<Longrightarrow> wrap_up s = wrap_up (s + 360)"
  by (subst wrap_up.simps) simp

definition normalize_separation :: "real \<Rightarrow> real" where
  "normalize_separation s = wrap_up (wrap_down s)"

text \<open>
  \<^verbatim>\<open>_is_applying_enhanced\<close>, in the order of the source: the faster and the slower body,
  their normalised separation, the candidate targets and the closest of them, the
  current orb, the days to perfection (\<^const>\<open>None\<close> stands for \<^verbatim>\<open>float('inf')\<close>), the two
  sign-exit checks, and the orb after \<^verbatim>\<open>timing_precision_days\<close>.
\<close>

definition faster_slower :: "PlanetPosition \<Rightarrow> PlanetPosition \<Rightarrow> PlanetPosition \<times> PlanetPosition" where
  "faster_slower pos1 pos2 = (if \<bar>speed pos1\<bar> > \<bar>speed pos2\<bar> then (pos1, pos2) else (pos2, pos1))"

definition current_separation :: "PlanetPosition \<Rightarrow> PlanetPosition \<Rightarrow> real" where
  "current_separation pos1 pos2 =
     (let (faster, slower) = faster_slower pos1 pos2
      in normalize_separation (longitude faster - longitude slower))"

definition aspect_targets :: "Aspect \<Rightarrow> real list" where
  "aspect_targets a =
     (let target = degrees a
      in [target, - target] @
         (if target \<noteq> 0 \<and> target \<noteq> 180 then [target - 360, - target + 360] else []))"

definition closest_target :: "real \<Rightarrow> Aspect \<Rightarrow> real" where
  "closest_target separation a =
     min_by_acc (\<lambda>t. \<bar>separation - t\<bar>) (hd (aspect_targets a)) (tl (aspect_targets a))"

definition current_orb :: "PlanetPosition \<Rightarrow> PlanetPosition \<Rightarrow> Aspect \<Rightarrow> real" where
  "current_orb pos1 pos2 a =
     (let separation = current_separation pos1 pos2
      in \<bar>separation - closest_target separation a\<bar>)"

definition days_to_perfect :: "PlanetPosition \<Rightarrow> PlanetPosition \<Rightarrow> Aspect \<Rightarrow> real option" where
  "days_to_perfect pos1 pos2 a =
     (let (faster, slower) = faster_slower pos1 pos2
      in if \<bar>speed faster - speed slower\<bar> > 0
         then Some (current_orb pos1 pos2 a / \<bar>speed faster - speed slower\<bar>)
         else None)"

definition future_orb :: "config \<Rightarrow> PlanetPosition \<Rightarrow> PlanetPosition \<Rightarrow> Aspect \<Rightarrow> real" where
  "future_orb cfg pos1 pos2 a =
     (let (faster, slower) = faster_slower pos1 pos2;
          separation = current_separation pos1 pos2;
          time_increment = timing_precision_days (cfg_timing cfg);
          future_separation =
            normalize_separation (separation + (speed faster - speed slower) * time_increment)
      in \<bar>future_separation - closest_target separation a\<bar>)"

text \<open>\<^verbatim>\<open>days_to_perfect > days_to_exit\<close>, where the left side may be infinite.\<close>

definition exceeds :: "real option \<Rightarrow> real \<Rightarrow> bool" where
  "exceeds d x = (case d of None \<Rightarrow> True | Some y \<Rightarrow> y > x)"

definition is_applying_enhanced ::
  "(real \<Rightarrow> real \<Rightarrow> real option) \<Rightarrow> config \<Rightarrow> PlanetPosition \<Rightarrow> PlanetPosition
     \<Rightarrow> Aspect \<Rightarrow> real \<Rightarrow> bool" where
  "is_applying_enhanced dse cfg pos1 pos2 a jd_ut =
     (let (faster, slower) = faster_slower pos1 pos2;
          faster_days_to_exit = dse (longitude faster) (speed faster);
          slower_days_to_exit = dse (longitude slower) (speed slower)
      in if truthy faster_days_to_exit
            \<and> exceeds (days_to_perfect pos1 pos2 a) (the faster_days_to_exit) then False
         else if truthy slower_days_to_exit
            \<and> exceeds (days_to_perfect pos1 pos2 a) (the slower_days_to_exit) then False
         else future_orb cfg pos1 pos2 a < current_orb pos1 pos2 a)"

text \<open>
  \<^verbatim>\<open>_calculate_enhanced_degrees_to_exact\<close>: the pair \<^verbatim>\<open>(degrees, exact_time)\<close>. The
  conversion of the Julian day of exactness to a date,
  \<^verbatim>\<open>year, month, day, hour = swe.jdut1_to_utc(exact_jd, 1)\<close>, unpacks the six values that the
  ephemeris library returns (year, month, day, hour, minute, second) into four names;
  this raises \<^verbatim>\<open>ValueError\<close> inside the bare \<^verbatim>\<open>except\<close>, which sets \<^verbatim>\<open>exact_time\<close> to
  \<^verbatim>\<open>None\<close>. \<open>jdut1_to_datetime\<close> is that \<^verbatim>\<open>try\<close> block.
\<close>

definition jdut1_to_datetime :: "real \<Rightarrow> real option" where
  "jdut1_to_datetime exact_jd = None"

definition angular_separation :: "real \<Rightarrow> real \<Rightarrow> real" where
  "angular_separation lon1 lon2 =
     (let d = \<bar>lon1 - lon2\<bar> in if d > 180 then 360 - d else d)"

definition calculate_enhanced_degrees_to_exact ::
  "config \<Rightarrow> PlanetPosition \<Rightarrow> PlanetPosition \<Rightarrow> Aspect \<Rightarrow> real \<Rightarrow> real \<times> real option" where
  "calculate_enhanced_degrees_to_exact cfg pos1 pos2 a jd_ut =
     (let separation = angular_separation (longitude pos1) (longitude pos2);
          orb_from_exact = \<bar>separation - degrees a\<bar>;
          exact_time =
            (if \<bar>speed pos1 - speed pos2\<bar> > 0 then
               (let days_to_exact = orb_from_exact / \<bar>speed pos1 - speed pos2\<bar>
                in if days_to_exact < max_future_days (cfg_timing cfg)
                   then jdut1_to_datetime (jd_ut + days_to_exact) else None)
             else None)
      in if orb_from_exact < 1 / 10 then (1 / 10, exact_time) else (orb_from_exact, exact_time))"

text \<open>
  \<^verbatim>\<open>_calculate_moiety_based_orb\<close>; \<^verbatim>\<open>getattr(config.orbs.moieties, planet.value, 8.0)\<close> is
  a lookup with default. The last branch of the source (\<open>* 0.8\<close>) is for a value outside
  the five aspects and cannot be reached.
\<close>

definition getattr_default :: "(string \<times> real) list \<Rightarrow> string \<Rightarrow> real \<Rightarrow> real" where
  "getattr_default d k dflt = (case map_of d k of None \<Rightarrow> dflt | Some v \<Rightarrow> v)"

definition calculate_moiety_based_orb :: "config \<Rightarrow> Planet \<Rightarrow> Planet \<Rightarrow> Aspect \<Rightarrow> real" where
  "calculate_moiety_based_orb cfg p1 p2 aspect_type =
     (case moieties (cfg_orbs cfg) of
        None \<Rightarrow> 0
      | Some ms \<Rightarrow>
          (let moiety1 = getattr_default ms (planet_value p1) 8;
               moiety2 = getattr_default ms (planet_value p2) 8;
               combined_moiety = moiety1 + moiety2
           in if aspect_type \<in> set [CONJUNCTION, OPPOSITION] then combined_moiety
              else if aspect_type \<in> set [TRINE, SQUARE] then combined_moiety * (85 / 100)
              else combined_moiety * (7 / 10)))"

text \<open>The property \<^verbatim>\<open>Aspect.orb\<close>: the configured orb, 8.0 when the key is missing.\<close>

definition aspect_orb :: "config \<Rightarrow> Aspect \<Rightarrow> real" where
  "aspect_orb cfg a = getattr_default (orbs_dict (cfg_orbs cfg)) (config_key a) 8"

definition aspect_max_orb :: "config \<Rightarrow> Planet \<Rightarrow> Planet \<Rightarrow> Aspect \<Rightarrow> real" where
  "aspect_max_orb cfg p1 p2 aspect_type =
     (let max_orb = calculate_moiety_based_orb cfg p1 p2 aspect_type
      in if max_orb = 0 then
           (let m0 = aspect_orb cfg aspect_type;
                m1 = (if SUN \<in> set [p1, p2] then m0 + sun_orb_bonus (cfg_orbs cfg) else m0);
                m2 = (if MOON \<in> set [p1, p2] then m1 + moon_orb_bonus (cfg_orbs cfg) else m1)
            in m2)
         else max_orb)"

text \<open>
  \<^verbatim>\<open>_calculate_enhanced_aspects\<close>. The innermost loop runs over the aspects and stops at
  the first one within orb (\<^verbatim>\<open>break\<close>); it contributes no or one \<^verbatim>\<open>AspectInfo\<close>. The
  positions are those stored with the keys of the dict \<^verbatim>\<open>planets\<close>.
\<close>

fun aspect_loop ::
  "(real \<Rightarrow> real \<Rightarrow> real option) \<Rightarrow> config \<Rightarrow> real \<Rightarrow> Planet \<times> PlanetPosition
     \<Rightarrow> Planet \<times> PlanetPosition \<Rightarrow> Aspect list \<Rightarrow> AspectInfo list" where
  "aspect_loop dse cfg jd_ut (p1, pos1) (p2, pos2) [] = []"
| "aspect_loop dse cfg jd_ut (p1, pos1) (p2, pos2) (aspect_type # rest) =
     (let angle_diff = angular_separation (longitude pos1) (longitude pos2);
          orb_diff = \<bar>angle_diff - degrees aspect_type\<bar>;
          max_orb = aspect_max_orb cfg p1 p2 aspect_type
      in if orb_diff \<le> max_orb then
           (let is_applying = is_applying_enhanced dse cfg pos1 pos2 aspect_type jd_ut;
                (dte, et) = calculate_enhanced_degrees_to_exact cfg pos1 pos2 aspect_type jd_ut
            in [\<lparr>planet1 = p1, planet2 = p2, aspect = aspect_type, orb = orb_diff,
                  applying = is_applying, exact_time = et, degrees_to_exact = dte\<rparr>])
         else aspect_loop dse cfg jd_ut (p1, pos1) (p2, pos2) rest)"

fun second_planet_loop ::
  "(real \<Rightarrow> real \<Rightarrow> real option) \<Rightarrow> config \<Rightarrow> real \<Rightarrow> Planet \<times> PlanetPosition
     \<Rightarrow> (Planet \<times> PlanetPosition) list \<Rightarrow> AspectInfo list" where
  "second_planet_loop dse cfg jd_ut pp1 [] = []"
| "second_planet_loop dse cfg jd_ut pp1 (pp2 # rest) =
     aspect_loop dse cfg jd_ut pp1 pp2 all_aspects @ second_planet_loop dse cfg jd_ut pp1 rest"

fun calculate_enhanced_aspects ::
  "(real \<Rightarrow> real \<Rightarrow> real option) \<Rightarrow> config \<Rightarrow> (Planet \<times> PlanetPosition) list \<Rightarrow> real
     \<Rightarrow> AspectInfo list" where
  "calculate_enhanced_aspects dse cfg [] jd_ut = []"
| "calculate_enhanced_aspects dse cfg (pp1 # rest) jd_ut =
     second_planet_loop dse cfg jd_ut pp1 rest @ calculate_enhanced_aspects dse cfg rest jd_ut"



text \<open>The combined moiety of a pair, as \<^verbatim>\<open>_calculate_moiety_based_orb\<close> computes it.\<close>

definition combined_moiety :: "(string \<times> real) list \<Rightarrow> Planet \<Rightarrow> Planet \<Rightarrow> real" where
  "combined_moiety ms p1 p2 =
     getattr_default ms (planet_value p1) 8 + getattr_default ms (planet_value p2) 8"

section \<open>Void of course\<close>

text \<open>\<^verbatim>\<open>str.lower\<close> on ASCII text.\<close>

definition lower_char :: "char \<Rightarrow> char" where
  "lower_char c =
     (case map_of (zip ''ABCDEFGHIJKLMNOPQRSTUVWXYZ'' ''abcdefghijklmnopqrstuvwxyz'') c of
        Some l \<Rightarrow> l
      | None \<Rightarrow> c)"

definition lower :: "string \<Rightarrow> string" where
  "lower s = map lower_char s"

record void_result =
  void :: bool
  exception :: bool
  void_reason :: fstring
  degrees_left_in_sign :: "real option"

record future_aspect =
  fa_planet :: Planet
  fa_aspect :: Aspect
  target_degree :: real
  degrees_to_reach :: real

text \<open>\<^verbatim>\<open>_calculate_aspect_positions\<close>.\<close>

definition calculate_aspect_positions :: "real \<Rightarrow> Aspect \<Rightarrow> Sign \<Rightarrow> real list" where
  "calculate_aspect_positions planet_longitude a moon_sign =
     (let aspect_positions =
            [pymod (planet_longitude + degrees a) 360, pymod (planet_longitude - degrees a) 360];
          sign_start = start_degree moon_sign;
          sign_end = pymod (sign_start + 30) 360
      in filter
           (\<lambda>pos_normalized.
              if sign_start < sign_end then sign_start \<le> pos_normalized \<and> pos_normalized < sign_end
              else pos_normalized \<ge> sign_start \<or> pos_normalized < sign_end)
           (map (\<lambda>pos. pymod pos 360) aspect_positions))"

text \<open>
  \<^verbatim>\<open>_void_by_sign_method\<close>. The three nested loops that fill \<^verbatim>\<open>future_aspects\<close> are
  written as nested maps in the same order.
\<close>

definition future_aspects_in_sign :: "PlanetPosition \<Rightarrow> (Planet \<times> PlanetPosition) list \<Rightarrow> future_aspect list" where
  "future_aspects_in_sign moon_pos ps =
     (let moon_degree_in_sign = pymod (longitude moon_pos) 30;
          degrees_left = 30 - moon_degree_in_sign
      in concat (map (\<lambda>(p, planet_pos).
           if p = MOON then []
           else concat (map (\<lambda>aspect_type.
                  concat (map (\<lambda>target_position.
                    (let target_degree_in_sign = pymod target_position 30
                     in if target_degree_in_sign > moon_degree_in_sign
                           \<and> target_degree_in_sign - moon_degree_in_sign < degrees_left
                        then [\<lparr>fa_planet = p, fa_aspect = aspect_type,
                                target_degree = target_degree_in_sign,
                                degrees_to_reach = target_degree_in_sign - moon_degree_in_sign\<rparr>]
                        else []))
                    (calculate_aspect_positions (longitude planet_pos) aspect_type (sign moon_pos))))
                  all_aspects)) ps))"

definition void_by_sign_method :: "config \<Rightarrow> HoraryChart \<Rightarrow> void_result option" where
  "void_by_sign_method cfg chart =
     do {
       moon_pos \<leftarrow> map_of (planets chart) MOON;
       let moon_degree_in_sign = pymod (longitude moon_pos) 30;
       let degrees_left = 30 - moon_degree_in_sign;
       if \<bar>speed moon_pos\<bar> < stationary_speed_threshold (cfg_timing cfg) then
         Some \<lparr>void = False, exception = False,
               void_reason = [S ''Moon stationary - cannot be void of course''],
               degrees_left_in_sign = Some degrees_left\<rparr>
       else do {
         let future_aspects = future_aspects_in_sign moon_pos (planets chart);
         let ve = cfg_void_exceptions (cfg_moon cfg);
         let exceptions =
           (if sign moon_pos = CANCER \<and> cancer ve then True
            else if sign moon_pos = SAGITTARIUS \<and> sagittarius ve then True
            else if sign moon_pos = TAURUS \<and> taurus ve then True
            else False);
         let is_void = (future_aspects = []);
         let reason0 =
           (if is_void then
              [S ''Moon makes no more aspects before leaving '', S (sign_name (sign moon_pos))]
            else
              (case min_by degrees_to_reach future_aspects of
                 None \<Rightarrow> []
               | Some next_aspect \<Rightarrow>
                   [S ''Moon will '', S (lower (display_name (fa_aspect next_aspect))), S '' '',
                    S (planet_value (fa_planet next_aspect)), S '' at '',
                    F1 (target_degree next_aspect), S '' '', S (sign_name (sign moon_pos))]));
         let reason =
           (if exceptions then
              (if sign moon_pos = CANCER then reason0 @ [S '' (but in own sign - Cancer)'']
               else if sign moon_pos = SAGITTARIUS then reason0 @ [S '' (but in joy - Sagittarius)'']
               else if sign moon_pos = TAURUS then reason0 @ [S '' (but in exaltation - Taurus)'']
               else reason0)
            else reason0);
         Some \<lparr>void = is_void, exception = exceptions, void_reason = reason,
               degrees_left_in_sign = Some degrees_left\<rparr>
       }
     }"

text \<open>
  \<^verbatim>\<open>_void_by_orb_method\<close>: the loops return at the first planet (other than the Moon)
  and aspect within \<^verbatim>\<open>void_orb_deg\<close>.
\<close>

fun first_aspect_within_void_orb ::
  "real \<Rightarrow> PlanetPosition \<Rightarrow> (Planet \<times> PlanetPosition) list \<Rightarrow> (Aspect \<times> Planet) option" where
  "first_aspect_within_void_orb void_orb moon_pos [] = None"
| "first_aspect_within_void_orb void_orb moon_pos ((p, planet_pos) # rest) =
     (if p = MOON then first_aspect_within_void_orb void_orb moon_pos rest
      else
        (let separation = angular_separation (longitude moon_pos) (longitude planet_pos)
         in case find (\<lambda>aspect_type. \<bar>separation - degrees aspect_type\<bar> \<le> void_orb) all_aspects of
              Some aspect_type \<Rightarrow> Some (aspect_type, p)
            | None \<Rightarrow> first_aspect_within_void_orb void_orb moon_pos rest))"

definition void_by_orb_method :: "config \<Rightarrow> HoraryChart \<Rightarrow> void_result option" where
  "void_by_orb_method cfg chart =
     do {
       moon_pos \<leftarrow> map_of (planets chart) MOON;
       let void_orb = void_orb_deg (cfg_orbs cfg);
       (case first_aspect_within_void_orb void_orb moon_pos (planets chart) of
          Some (aspect_type, p) \<Rightarrow>
            Some \<lparr>void = False, exception = False,
                  void_reason = [S ''Moon within '', R void_orb, S '' orb of '',
                                 S (display_name aspect_type), S '' to '', S (planet_value p)],
                  degrees_left_in_sign = None\<rparr>
        | None \<Rightarrow>
            Some \<lparr>void = True, exception = False,
                  void_reason = [S ''Moon not within '', R void_orb, S '' of any aspect''],
                  degrees_left_in_sign = None\<rparr>)
     }"

text \<open>\<^verbatim>\<open>_void_lilly_method\<close>.\<close>

definition void_lilly_method :: "config \<Rightarrow> HoraryChart \<Rightarrow> void_result option" where
  "void_lilly_method cfg chart =
     do {
       moon_pos \<leftarrow> map_of (planets chart) MOON;
       let lilly_exceptions = [CANCER, TAURUS, SAGITTARIUS, PISCES];
       let exc = (sign moon_pos \<in> set lilly_exceptions);
       void_result \<leftarrow> void_by_sign_method cfg chart;
       Some (void_result\<lparr>exception := exc,
               void_reason :=
                 (if exc then void_reason void_result
                                @ [S '' (Lilly exception: '', S (sign_name (sign moon_pos)), S '')'']
                  else void_reason void_result)\<rparr>)
     }"

text \<open>\<^verbatim>\<open>_is_moon_void_of_course_enhanced\<close>.\<close>

definition is_moon_void_of_course_enhanced :: "config \<Rightarrow> HoraryChart \<Rightarrow> void_result option" where
  "is_moon_void_of_course_enhanced cfg chart =
     do {
       moon_pos \<leftarrow> map_of (planets chart) MOON;
       let rule = void_rule (cfg_moon cfg);
       if rule = ''by_sign'' then void_by_sign_method cfg chart
       else if rule = ''by_orb'' then void_by_orb_method cfg chart
       else if rule = ''lilly'' then void_lilly_method cfg chart
       else void_by_sign_method cfg chart
     }"

section \<open>Question Analyzer\<close>

text \<open>
  Question texts are ASCII strings. \<^verbatim>\<open>pattern in question\<close> is \<open>contains\<close>;
  \<^verbatim>\<open>str.strip\<close> removes the blanks at both ends.
\<close>

fun startswith :: "string \<Rightarrow> string \<Rightarrow> bool" where
  "startswith s [] = True"
| "startswith [] (p # ps) = False"
| "startswith (c # cs) (p # ps) = (c = p \<and> startswith cs ps)"

fun contains :: "string \<Rightarrow> string \<Rightarrow> bool" where
  "contains [] pat = startswith [] pat"
| "contains (c # cs) pat = (startswith (c # cs) pat \<or> contains cs pat)"

definition strip :: "string \<Rightarrow> string" where
  "strip s = rev (dropWhile (\<lambda>c. c = CHR '' '') (rev (dropWhile (\<lambda>c. c = CHR '' '') s)))"

subsection \<open>\<^verbatim>\<open>_detect_third_person_question\<close>\<close>

definition third_person_patterns :: "string list" where
  "third_person_patterns =
     [''will he '', ''will she '', ''will they '', ''did he '', ''did she '', ''has he '',
      ''has she '', ''does he '', ''does she '', ''can he '', ''can she '', ''should he '',
      ''should she '',
      '' his '', '' her '', '' their '',
      ''the student'', ''my student'', ''the teacher'', ''my friend'', ''my partner'',
      ''my husband'', ''my wife'', ''my child'', ''my son'', ''my daughter'', ''the patient'',
      ''my client'',
      ''asked by his'', ''asked by her'', ''asked by the'']"

text \<open>The returned dict; a key that the dict does not have is \<^const>\<open>None\<close>.\<close>

record third_person_analysis =
  is_third_person :: bool
  subject_house :: "int option"
  turn_houses :: "bool option"
  pattern_matched :: "string option"
  educational_context :: "bool option"

definition detect_third_person_question :: "string \<Rightarrow> third_person_analysis" where
  "detect_third_person_question question =
     (case find (\<lambda>pattern. contains question pattern) third_person_patterns of
        Some pattern \<Rightarrow>
          \<lparr>is_third_person = True, subject_house = Some 7, turn_houses = Some True,
           pattern_matched = Some (strip pattern), educational_context = None\<rparr>
      | None \<Rightarrow>
          if list_ex (\<lambda>x. contains question x)
               [''asked by his teacher'', ''asked by her teacher'', ''asked by the teacher'']
          then \<lparr>is_third_person = True, subject_house = Some 7, turn_houses = Some True,
                 pattern_matched = Some ''teacher asking about student'',
                 educational_context = Some True\<rparr>
          else \<lparr>is_third_person = False, subject_house = None, turn_houses = None,
                 pattern_matched = None, educational_context = None\<rparr>)"

subsection \<open>\<^verbatim>\<open>_parse_question_timeframe\<close>\<close>

text \<open>
  The patterns are literal texts, but for the two of \<open>by_date\<close>:
  \<^verbatim>\<open>by (\w+ \d+)\<close> and \<^verbatim>\<open>before (\w+ \d+)\<close>, a prefix followed by a run of word characters, one
  blank and a digit. \<^verbatim>\<open>re.search(pattern, question, re.IGNORECASE)\<close> on ASCII text is a
  search in the lower-cased question.
\<close>

datatype pattern = Literal string | Prefix_word_number string

definition is_word_char :: "char \<Rightarrow> bool" where
  "is_word_char c = (c \<in> set ''abcdefghijklmnopqrstuvwxyzABCDEFGHIJKLMNOPQRSTUVWXYZ0123456789_'')"

definition is_digit :: "char \<Rightarrow> bool" where
  "is_digit c = (c \<in> set ''0123456789'')"

definition word_number_at :: "string \<Rightarrow> bool" where
  "word_number_at s =
     (let rest = dropWhile is_word_char s
      in length rest < length s \<and>
         (case rest of c1 # c2 # _ \<Rightarrow> c1 = CHR '' '' \<and> is_digit c2 | _ \<Rightarrow> False))"

fun search_word_number :: "string \<Rightarrow> string \<Rightarrow> bool" where
  "search_word_number pre [] = False"
| "search_word_number pre (c # cs) =
     ((startswith (c # cs) pre \<and> word_number_at (drop (length pre) (c # cs)))
      \<or> search_word_number pre cs)"

fun re_search :: "pattern \<Rightarrow> string \<Rightarrow> bool" where
  "re_search (Literal l) question = contains (lower question) l"
| "re_search (Prefix_word_number pre) question = search_word_number pre (lower question)"

definition timeframe_patterns :: "(string \<times> pattern list) list" where
  "timeframe_patterns =
     [(''this_month'', [Literal ''this month'', Literal ''by the end of this month'',
                        Literal ''within this month'']),
      (''next_month'', [Literal ''next month'', Literal ''by next month'']),
      (''this_year'', [Literal ''this year'', Literal ''by the end of this year'',
                       Literal ''within this year'']),
      (''this_week'', [Literal ''this week'', Literal ''by the end of this week'',
                       Literal ''within this week'']),
      (''today'', [Literal ''today'', Literal ''by today'', Literal ''by the end of today'']),
      (''soon'', [Literal ''soon'', Literal ''quickly'', Literal ''fast'']),
      (''by_date'', [Prefix_word_number ''by '', Prefix_word_number ''before ''])]"

definition detected_timeframes :: "string \<Rightarrow> string list" where
  "detected_timeframes question =
     map fst (filter (\<lambda>(timeframe_type, patterns). list_ex (\<lambda>p. re_search p question) patterns)
                timeframe_patterns)"

text \<open>
  \<^verbatim>\<open>datetime\<close>: the calendar arithmetic the function uses. A date outside the years
  1 to 9999 raises, which is \<^const>\<open>None\<close>.
\<close>

record datetime =
  dt_year :: int
  dt_month :: int
  dt_day :: int
  dt_hour :: int
  dt_minute :: int
  dt_second :: int
  dt_microsecond :: int

definition is_leap :: "int \<Rightarrow> bool" where
  "is_leap y = (y mod 4 = 0 \<and> (y mod 100 \<noteq> 0 \<or> y mod 400 = 0))"

definition days_in_month :: "int \<Rightarrow> int \<Rightarrow> int" where
  "days_in_month y m =
     (if m = 2 then (if is_leap y then 29 else 28)
      else if m \<in> set [4, 6, 9, 11] then 30 else 31)"

definition days_before_year :: "int \<Rightarrow> int" where
  "days_before_year y = (y - 1) * 365 + (y - 1) div 4 - (y - 1) div 100 + (y - 1) div 400"

definition days_before_month :: "int \<Rightarrow> int \<Rightarrow> int" where
  "days_before_month y m = sum_list (map (days_in_month y) [1..m - 1])"

definition toordinal :: "datetime \<Rightarrow> int" where
  "toordinal d = days_before_year (dt_year d) + days_before_month (dt_year d) (dt_month d) + dt_day d"

definition weekday :: "datetime \<Rightarrow> int" where
  "weekday d = (toordinal d + 6) mod 7"

definition datetime_ymd :: "int \<Rightarrow> int \<Rightarrow> int \<Rightarrow> datetime option" where
  "datetime_ymd y m d =
     (if 1 \<le> y \<and> y \<le> 9999 \<and> 1 \<le> m \<and> m \<le> 12 \<and> 1 \<le> d \<and> d \<le> days_in_month y m
      then Some \<lparr>dt_year = y, dt_month = m, dt_day = d, dt_hour = 0, dt_minute = 0,
                 dt_second = 0, dt_microsecond = 0\<rparr>
      else None)"

definition minus_one_day :: "datetime \<Rightarrow> datetime option" where
  "minus_one_day d =
     (if dt_day d > 1 then Some (d\<lparr>dt_day := dt_day d - 1\<rparr>)
      else if dt_month d > 1
        then Some (d\<lparr>dt_month := dt_month d - 1, dt_day := days_in_month (dt_year d) (dt_month d - 1)\<rparr>)
      else if dt_year d > 1
        then Some (d\<lparr>dt_year := dt_year d - 1, dt_month := 12, dt_day := 31\<rparr>)
      else None)"

definition plus_one_day :: "datetime \<Rightarrow> datetime option" where
  "plus_one_day d =
     (if dt_day d < days_in_month (dt_year d) (dt_month d) then Some (d\<lparr>dt_day := dt_day d + 1\<rparr>)
      else if dt_month d < 12 then Some (d\<lparr>dt_month := dt_month d + 1, dt_day := 1\<rparr>)
      else if dt_year d < 9999 then Some (d\<lparr>dt_year := dt_year d + 1, dt_month := 1, dt_day := 1\<rparr>)
      else None)"

fun plus_days :: "datetime \<Rightarrow> nat \<Rightarrow> datetime option" where
  "plus_days d 0 = Some d"
| "plus_days d (Suc k) = (case plus_one_day d of None \<Rightarrow> None | Some d' \<Rightarrow> plus_days d' k)"

record timeframe_analysis =
  has_timeframe :: bool
  timeframe_type :: "string option"
  end_date :: "datetime option"
  patterns_matched :: "string list option"

definition parse_question_timeframe :: "datetime \<Rightarrow> string \<Rightarrow> timeframe_analysis option" where
  "parse_question_timeframe now question =
     (let detected = detected_timeframes question
      in if detected = [] then
           Some \<lparr>has_timeframe = False, timeframe_type = None, end_date = None,
                 patterns_matched = None\<rparr>
         else do {
           e \<leftarrow>
             (if ''this_month'' \<in> set detected then
                (if dt_month now = 12
                 then do { first \<leftarrow> datetime_ymd (dt_year now + 1) 1 1;
                           l \<leftarrow> minus_one_day first; Some (Some l) }
                 else do { first \<leftarrow> datetime_ymd (dt_year now) (dt_month now + 1) 1;
                           l \<leftarrow> minus_one_day first; Some (Some l) })
              else if ''this_week'' \<in> set detected then
                (let days_until_sunday = (6 - weekday now) mod 7
                 in do { l \<leftarrow> plus_days now (nat days_until_sunday); Some (Some l) })
              else if ''today'' \<in> set detected then
                Some (Some (now\<lparr>dt_hour := 23, dt_minute := 59, dt_second := 59\<rparr>))
              else Some None);
           Some \<lparr>has_timeframe = True, timeframe_type = Some (hd detected), end_date = e,
                 patterns_matched = Some detected\<rparr>
         })"

text \<open>
  The entries \<^verbatim>\<open>third_person_analysis\<close> and \<^verbatim>\<open>timeframe_analysis\<close> of the dict that
  \<^verbatim>\<open>analyze_question\<close> returns: both functions are given \<^verbatim>\<open>question.lower()\<close>.
\<close>

definition analyze_question_third_person :: "string \<Rightarrow> third_person_analysis" where
  "analyze_question_third_person question = detect_third_person_question (lower question)"

definition analyze_question_timeframe :: "datetime \<Rightarrow> string \<Rightarrow> timeframe_analysis option" where
  "analyze_question_timeframe now question = parse_question_timeframe now (lower question)"

section \<open>Confidence threshold (\<^verbatim>\<open>_apply_confidence_threshold\<close>)\<close>

text \<open>
  The method returns the pair \<^verbatim>\<open>(result, confidence)\<close> and appends to the caller's
  \<^verbatim>\<open>reasoning\<close> list; the model returns the pair together with the extended list.
\<close>

definition apply_confidence_threshold ::
  "string \<Rightarrow> int \<Rightarrow> fstring list \<Rightarrow> (string \<times> int) \<times> fstring list" where
  "apply_confidence_threshold result confidence reasoning =
     (if confidence < 50 then
        (if result = ''YES'' then
           (if confidence < 30 then
              ((''NO'', max confidence 20),
               reasoning @ [[S ''Very low confidence ('', I confidence, S ''%) - matter denied'']])
            else
              ((''INCONCLUSIVE'', confidence),
               reasoning @ [[S ''Low confidence ('', I confidence, S ''%) - matter uncertain'']]))
         else ((result, confidence), reasoning))
      else ((result, confidence), reasoning))"

section \<open>Triplicity rulers: Reception Calculator and dignity scorer\<close>

text \<open>
  \<^verbatim>\<open>TraditionalReceptionCalculator.__init__\<close>: the table \<^verbatim>\<open>self.triplicity_rulers\<close>,
  and \<^verbatim>\<open>_has_triplicity_dignity\<close>, which reads it.
\<close>

definition reception_triplicity_rulers :: "(Sign \<times> (string \<times> Planet) list) list" where
  "reception_triplicity_rulers =
     [(ARIES, [(''day'', SUN), (''night'', JUPITER)]),
      (LEO, [(''day'', SUN), (''night'', JUPITER)]),
      (SAGITTARIUS, [(''day'', SUN), (''night'', JUPITER)]),
      (TAURUS, [(''day'', VENUS), (''night'', MOON)]),
      (VIRGO, [(''day'', VENUS), (''night'', MOON)]),
      (CAPRICORN, [(''day'', VENUS), (''night'', MOON)]),
      (GEMINI, [(''day'', SATURN), (''night'', MERCURY)]),
      (LIBRA, [(''day'', SATURN), (''night'', MERCURY)]),
      (AQUARIUS, [(''day'', SATURN), (''night'', MERCURY)]),
      (CANCER, [(''day'', MARS), (''night'', VENUS)]),
      (SCORPIO, [(''day'', MARS), (''night'', VENUS)]),
      (PISCES, [(''day'', MARS), (''night'', VENUS)])]"

definition has_triplicity_dignity :: "Planet \<Rightarrow> Sign \<Rightarrow> bool \<Rightarrow> bool" where
  "has_triplicity_dignity p sg is_day =
     (case map_of reception_triplicity_rulers sg of
        None \<Rightarrow> False
      | Some row \<Rightarrow>
          (let sect = (if is_day then ''day'' else ''night'')
           in map_of row sect = Some p))"

text \<open>
  \<^verbatim>\<open>EnhancedTraditionalAstrologicalCalculator._calculate_triplicity_dignity\<close>: its local
  table \<^verbatim>\<open>triplicity_rulers\<close>; the score \<^verbatim>\<open>cfg().dignity.triplicity\<close> is the
  parameter \<open>triplicity_score\<close>.
\<close>

definition dignity_triplicity_rulers :: "(Sign \<times> (string \<times> Planet) list) list" where
  "dignity_triplicity_rulers =
     [(ARIES, [(''day'', SUN), (''night'', JUPITER)]),
      (LEO, [(''day'', SUN), (''night'', JUPITER)]),
      (SAGITTARIUS, [(''day'', SUN), (''night'', JUPITER)]),
      (TAURUS, [(''day'', VENUS), (''night'', MOON)]),
      (VIRGO, [(''day'', VENUS), (''night'', MOON)]),
      (CAPRICORN, [(''day'', VENUS), (''night'', MOON)]),
      (GEMINI, [(''day'', SATURN), (''night'', MERCURY)]),
      (LIBRA, [(''day'', SATURN), (''night'', MERCURY)]),
      (AQUARIUS, [(''day'', SATURN), (''night'', MERCURY)]),
      (CANCER, [(''day'', VENUS), (''night'', MARS)]),
      (SCORPIO, [(''day'', VENUS), (''night'', MARS)]),
      (PISCES, [(''day'', VENUS), (''night'', MARS)])]"

definition calculate_triplicity_dignity ::
  "int \<Rightarrow> Planet \<Rightarrow> Sign \<Rightarrow> PlanetPosition \<Rightarrow> int" where
  "calculate_triplicity_dignity triplicity_score p sg sun_pos =
     (case map_of dignity_triplicity_rulers sg of
        None \<Rightarrow> 0
      | Some row \<Rightarrow>
          (let sun_house = house sun_pos;
               is_day = (sun_house \<in> set [7, 8, 9, 10, 11, 12]);
               sect = (if is_day then ''day'' else ''night'')
           in if map_of row sect = Some p then triplicity_score else 0))"

text \<open>The ruler each table gives for a sign and a sect (\<open>''day''\<close> or \<open>''night''\<close>).\<close>

definition reception_triplicity_ruler :: "Sign \<Rightarrow> string \<Rightarrow> Planet option" where
  "reception_triplicity_ruler sg sect =
     (case map_of reception_triplicity_rulers sg of None \<Rightarrow> None | Some row \<Rightarrow> map_of row sect)"

definition dignity_triplicity_ruler :: "Sign \<Rightarrow> string \<Rightarrow> Planet option" where
  "dignity_triplicity_ruler sg sect =
     (case map_of dignity_triplicity_rulers sg of None \<Rightarrow> None | Some row \<Rightarrow> map_of row sect)"

section \<open>Reception Calculator\<close>

text \<open>\<^verbatim>\<open>", ".join(xs)\<close> and the like, on strings and on unrendered f-strings.\<close>

fun join :: "'a list \<Rightarrow> 'a list list \<Rightarrow> 'a list" where
  "join sep [] = []"
| "join sep [x] = x"
| "join sep (x # y # ys) = x @ sep @ join sep (y # ys)"

text \<open>\<^verbatim>\<open>TraditionalReceptionCalculator.exaltations\<close>.\<close>

definition exaltations :: "(Planet \<times> Sign) list" where
  "exaltations =
     [(SUN, ARIES), (MOON, TAURUS), (MERCURY, VIRGO), (VENUS, PISCES), (MARS, CAPRICORN),
      (JUPITER, CANCER), (SATURN, LIBRA)]"

text \<open>
  \<^verbatim>\<open>_calculate_house_position\<close>: \<^verbatim>\<open>houses[i]\<close> raises \<^verbatim>\<open>IndexError\<close> when the list is
  too short.
\<close>

fun house_position_loop :: "real \<Rightarrow> real list \<Rightarrow> nat list \<Rightarrow> int option" where
  "house_position_loop lon hs [] = Some 1"
| "house_position_loop lon hs (i # rest) =
     (if i < length hs \<and> (i + 1) mod 12 < length hs then
        (let current_cusp = pymod (hs ! i) 360;
             next_cusp = pymod (hs ! ((i + 1) mod 12)) 360
         in if current_cusp > next_cusp then
              (if lon \<ge> current_cusp \<or> lon < next_cusp then Some (int i + 1)
               else house_position_loop lon hs rest)
            else
              (if current_cusp \<le> lon \<and> lon < next_cusp then Some (int i + 1)
               else house_position_loop lon hs rest))
      else None)"

definition calculate_house_position :: "real \<Rightarrow> real list \<Rightarrow> int option" where
  "calculate_house_position lon hs =
     house_position_loop (pymod lon 360) hs [0, 1, 2, 3, 4, 5, 6, 7, 8, 9, 10, 11]"

text \<open>\<^verbatim>\<open>_check_all_dignities\<close>.\<close>

definition check_all_dignities :: "Planet \<Rightarrow> PlanetPosition \<Rightarrow> bool \<Rightarrow> string list" where
  "check_all_dignities receiving_planet received_position is_day =
     (if ruler (sign received_position) = receiving_planet then [''domicile''] else [])
     @ (if map_of exaltations receiving_planet = Some (sign received_position)
        then [''exaltation''] else [])
     @ (if has_triplicity_dignity receiving_planet (sign received_position) is_day
        then [''triplicity''] else [])"

text \<open>\<^verbatim>\<open>_classify_reception\<close>: the type and the \<^verbatim>\<open>details\<close> dict.\<close>

datatype reception_details =
    No_details
  | Mutual_details "string list" "string list"
  | Unilateral_details Planet Planet "string list"

definition classify_reception ::
  "Planet \<Rightarrow> Planet \<Rightarrow> string list \<Rightarrow> string list \<Rightarrow> string \<times> reception_details" where
  "classify_reception p1 p2 reception_1_to_2 reception_2_to_1 =
     (if reception_1_to_2 = [] \<and> reception_2_to_1 = [] then (''none'', No_details)
      else if ''domicile'' \<in> set reception_1_to_2 \<and> ''domicile'' \<in> set reception_2_to_1
        then (''mutual_rulership'', Mutual_details reception_1_to_2 reception_2_to_1)
      else if ''exaltation'' \<in> set reception_1_to_2 \<and> ''exaltation'' \<in> set reception_2_to_1
        then (''mutual_exaltation'', Mutual_details reception_1_to_2 reception_2_to_1)
      else if reception_1_to_2 \<noteq> [] \<and> reception_2_to_1 \<noteq> []
        then (''mixed_reception'', Mutual_details reception_1_to_2 reception_2_to_1)
      else if reception_1_to_2 \<noteq> []
        then (''unilateral'', Unilateral_details p1 p2 reception_1_to_2)
      else (''unilateral'', Unilateral_details p2 p1 reception_2_to_1))"

text \<open>
  \<^verbatim>\<open>_format_reception_display\<close>. A key that \<^verbatim>\<open>details\<close> lacks reads as the empty list; the
  unilateral branch raises when the planets are missing.
\<close>

definition format_reception_display ::
  "string \<Rightarrow> Planet \<Rightarrow> Planet \<Rightarrow> reception_details \<Rightarrow> string option" where
  "format_reception_display reception_type p1 p2 details =
     (if reception_type = ''none'' then Some ''no reception''
      else if reception_type = ''mutual_rulership''
        then Some (planet_value p1 @ planet_value p2 @ '' mutual domicile reception'')
      else if reception_type = ''mutual_exaltation''
        then Some (planet_value p1 @ planet_value p2 @ '' mutual exaltation reception'')
      else if reception_type = ''mixed_reception'' then
        (let (d1, d2) = (case details of Mutual_details a b \<Rightarrow> (a, b) | _ \<Rightarrow> ([], []))
         in Some (planet_value p1 @ planet_value p2 @ '' mixed reception ('' @ join '', '' d1
                  @ '' / '' @ join '', '' d2 @ '')''))
      else if reception_type = ''unilateral'' then
        (case details of
           Unilateral_details receiving received dignities \<Rightarrow>
             Some (planet_value receiving @ '' receives '' @ planet_value received @ '' by ''
                   @ join '', '' dignities)
         | _ \<Rightarrow> None)
      else Some (reception_type @ '' reception''))"

text \<open>\<^verbatim>\<open>_calculate_reception_strength\<close>.\<close>

definition calculate_reception_strength :: "string \<Rightarrow> reception_details \<Rightarrow> int" where
  "calculate_reception_strength reception_type details =
     (if reception_type = ''none'' then 0
      else if reception_type = ''mutual_rulership'' then 10
      else if reception_type = ''mutual_exaltation'' then 8
      else if reception_type = ''mixed_reception'' then 6
      else if reception_type = ''unilateral'' then
        (let dignities = (case details of Unilateral_details _ _ ds \<Rightarrow> ds | _ \<Rightarrow> [])
         in if ''domicile'' \<in> set dignities then 5
            else if ''exaltation'' \<in> set dignities then 4
            else if ''triplicity'' \<in> set dignities then 3
            else 2)
      else 1)"

text \<open>\<^verbatim>\<open>calculate_comprehensive_reception\<close>.\<close>

record reception_data =
  reception_type :: string
  reception_details :: reception_details
  planet1_receives_planet2 :: "string list"
  planet2_receives_planet1 :: "string list"
  day_chart :: bool
  display_text :: string
  traditional_strength :: int

definition calculate_comprehensive_reception ::
  "HoraryChart \<Rightarrow> Planet \<Rightarrow> Planet \<Rightarrow> reception_data option" where
  "calculate_comprehensive_reception chart p1 p2 =
     do {
       pos1 \<leftarrow> map_of (planets chart) p1;
       pos2 \<leftarrow> map_of (planets chart) p2;
       sun_pos \<leftarrow> map_of (planets chart) SUN;
       sun_house \<leftarrow> calculate_house_position (longitude sun_pos) (houses chart);
       let is_day = (sun_house \<in> set [7, 8, 9, 10, 11, 12]);
       let reception_1_to_2 = check_all_dignities p1 pos2 is_day;
       let reception_2_to_1 = check_all_dignities p2 pos1 is_day;
       let (rtype, details) = classify_reception p1 p2 reception_1_to_2 reception_2_to_1;
       text \<leftarrow> format_reception_display rtype p1 p2 details;
       Some \<lparr>reception_type = rtype, reception_details = details,
             planet1_receives_planet2 = reception_1_to_2,
             planet2_receives_planet1 = reception_2_to_1,
             day_chart = is_day, display_text = text,
             traditional_strength = calculate_reception_strength rtype details\<rparr>
     }"

section \<open>Perfection Detector\<close>

text \<open>
  \<^verbatim>\<open>hasattr(pos, name)\<close> for a \<^verbatim>\<open>PlanetPosition\<close> \<open>pos\<close>: the attributes of a position are
  the fields the dataclass declares. Nothing in the engine assigns another attribute to a
  position; the solar analyses are kept in \<^verbatim>\<open>chart.solar_analyses\<close>.
\<close>

definition planet_position_fields :: "string list" where
  "planet_position_fields =
     [''planet'', ''longitude'', ''latitude'', ''house'', ''sign'', ''dignity_score'',
      ''retrograde'', ''speed'']"

definition hasattr_position :: "PlanetPosition \<Rightarrow> string \<Rightarrow> bool" where
  "hasattr_position pos name = (name \<in> set planet_position_fields)"

text \<open>
  Values of different Python types that the code compares, \<^verbatim>\<open>==\<close> on them and
  \<^verbatim>\<open>x in [..]\<close>: a member of the plain \<^verbatim>\<open>Enum\<close> \<^verbatim>\<open>Aspect\<close> is equal to itself only, and so
  to no string. \<open>aspect_attribute\<close> is the attribute access \<^verbatim>\<open>a.name\<close> on a member:
  \<^verbatim>\<open>__init__\<close> sets \<^verbatim>\<open>degrees\<close>, \<^verbatim>\<open>config_key\<close> and \<^verbatim>\<open>display_name\<close> (the class adds the
  property \<^verbatim>\<open>orb\<close>, the enum \<^verbatim>\<open>name\<close> and \<^verbatim>\<open>value\<close>, none of them read this way); any other
  name raises \<^verbatim>\<open>AttributeError\<close>.
\<close>

datatype pyvalue = Str string | Num real | Member Aspect

fun py_eq :: "pyvalue \<Rightarrow> pyvalue \<Rightarrow> bool" where
  "py_eq (Str s) (Str t) = (s = t)"
| "py_eq (Num x) (Num y) = (x = y)"
| "py_eq (Member a) (Member b) = (a = b)"
| "py_eq _ _ = False"

definition py_in :: "pyvalue \<Rightarrow> pyvalue list \<Rightarrow> bool" where
  "py_in x xs = list_ex (py_eq x) xs"

definition aspect_attribute :: "Aspect \<Rightarrow> string \<Rightarrow> pyvalue option" where
  "aspect_attribute a name =
     map_of [(''degrees'', Num (degrees a)), (''config_key'', Str (config_key a)),
             (''display_name'', Str (display_name a))] name"

text \<open>\<^verbatim>\<open>_get_planet_moiety\<close> and \<^verbatim>\<open>_is_aspect_within_orb_limits\<close>.\<close>

definition get_planet_moiety :: "Planet \<Rightarrow> real" where
  "get_planet_moiety p =
     (case map_of [(SUN, 17), (MOON, 25 / 2), (MERCURY, 7), (VENUS, 8), (MARS, 15 / 2),
                   (JUPITER, 9), (SATURN, 19 / 2)] p of
        Some m \<Rightarrow> m
      | None \<Rightarrow> 8)"

definition is_aspect_within_orb_limits :: "HoraryChart \<Rightarrow> AspectInfo \<Rightarrow> bool option" where
  "is_aspect_within_orb_limits chart a =
     do {
       pos1 \<leftarrow> map_of (planets chart) (planet1 a);
       pos2 \<leftarrow> map_of (planets chart) (planet2 a);
       let max_orb = get_planet_moiety (planet1 a) + get_planet_moiety (planet2 a);
       Some (orb a \<le> max_orb)
     }"

text \<open>\<^verbatim>\<open>_validate_translation_sequence_timing\<close>.\<close>

definition validate_translation_sequence_timing ::
  "HoraryChart \<Rightarrow> Planet \<Rightarrow> AspectInfo \<Rightarrow> AspectInfo \<Rightarrow> bool" where
  "validate_translation_sequence_timing chart translator separating_aspect applying_aspect =
     (if applying separating_aspect \<or> \<not> applying applying_aspect then False
      else if degrees_to_exact separating_aspect > 10 then False
      else if degrees_to_exact applying_aspect > 15 then False
      else True)"

text \<open>
  \<^verbatim>\<open>_check_intervening_aspects\<close>. In
  \<^verbatim>\<open>if (other_planet == a.planet2 if a.planet1 == translator else a.planet1): continue\<close>
  the conditional expression has \<^verbatim>\<open>a.planet1\<close>, a member of \<^verbatim>\<open>Planet\<close> and so true, as its
  else branch. The entries of the returned list are kept unrendered.
\<close>

definition skip_test :: "Planet \<Rightarrow> Planet \<Rightarrow> AspectInfo \<Rightarrow> bool" where
  "skip_test other_planet translator a =
     (if planet1 a = translator then other_planet = planet2 a else True)"

definition check_intervening_aspects ::
  "HoraryChart \<Rightarrow> Planet \<Rightarrow> AspectInfo \<Rightarrow> AspectInfo \<Rightarrow> (Aspect \<times> Planet) list option" where
  "check_intervening_aspects chart translator separating_aspect applying_aspect =
     do {
       translator_pos \<leftarrow> map_of (planets chart) translator;
       let translator_aspects =
         filter (\<lambda>a.
            (planet1 a = translator \<or> planet2 a = translator)
            \<and> (let other_planet = (if planet1 a = translator then planet2 a else planet1 a)
               in \<not> skip_test other_planet translator separating_aspect
                  \<and> \<not> skip_test other_planet translator applying_aspect))
           (aspects chart);
       Some (map (\<lambda>a. (aspect a, if planet1 a = translator then planet2 a else planet1 a))
              (filter (\<lambda>a. applying a \<and> degrees_to_exact a < degrees_to_exact applying_aspect)
                translator_aspects))
     }"

text \<open>
  \<^verbatim>\<open>_check_enhanced_translation_of_light\<close>. The loop over \<^verbatim>\<open>chart.aspects\<close> keeps the last
  aspect of the candidate with each significator; the loop over the planets returns at
  the first valid translator. Of the returned dict the entries \<^verbatim>\<open>reception_data\<close> and
  \<^verbatim>\<open>validation_details\<close>, which repeat values computed before, are left out.
\<close>

fun translator_aspects_loop ::
  "HoraryChart \<Rightarrow> Planet \<Rightarrow> Planet \<Rightarrow> Planet \<Rightarrow> AspectInfo list
     \<Rightarrow> AspectInfo option \<times> AspectInfo option \<Rightarrow> (AspectInfo option \<times> AspectInfo option) option" where
  "translator_aspects_loop chart p querent quesited [] acc = Some acc"
| "translator_aspects_loop chart p querent quesited (a # rest) (querent_aspect, quesited_aspect) =
     (case is_aspect_within_orb_limits chart a of
        None \<Rightarrow> None
      | Some ok \<Rightarrow>
          if \<not> ok then
            translator_aspects_loop chart p querent quesited rest (querent_aspect, quesited_aspect)
          else if (planet1 a = p \<and> planet2 a = querent) \<or> (planet1 a = querent \<and> planet2 a = p) then
            translator_aspects_loop chart p querent quesited rest (Some a, quesited_aspect)
          else if (planet1 a = p \<and> planet2 a = quesited) \<or> (planet1 a = quesited \<and> planet2 a = p) then
            translator_aspects_loop chart p querent quesited rest (querent_aspect, Some a)
          else
            translator_aspects_loop chart p querent quesited rest (querent_aspect, quesited_aspect))"

record translation =
  tl_translator :: Planet
  tl_favorable :: bool
  tl_confidence :: int
  tl_sequence :: string
  tl_reception :: string
  tl_combustion_penalty :: int

text \<open>
  The sequence test of the loop body: the description, the separating and the applying
  aspect when the candidate separates from one significator and applies to the other
  with valid timing.
\<close>

definition translation_sequence ::
  "HoraryChart \<Rightarrow> Planet \<Rightarrow> Planet \<Rightarrow> Planet \<Rightarrow> AspectInfo \<Rightarrow> AspectInfo
     \<Rightarrow> (string \<times> AspectInfo \<times> AspectInfo) option" where
  "translation_sequence chart p querent quesited querent_aspect quesited_aspect =
     (if \<not> applying querent_aspect \<and> applying quesited_aspect then
        (if validate_translation_sequence_timing chart p querent_aspect quesited_aspect
         then Some (''Separates from '' @ planet_value querent @ '', applies to ''
                    @ planet_value quesited, querent_aspect, quesited_aspect)
         else None)
      else if \<not> applying quesited_aspect \<and> applying querent_aspect then
        (if validate_translation_sequence_timing chart p quesited_aspect querent_aspect
         then Some (''Separates from '' @ planet_value quesited @ '', applies to ''
                    @ planet_value querent, quesited_aspect, querent_aspect)
         else None)
      else None)"

text \<open>
  The rest of the loop body, from the reception with the translator to the returned
  dict. Of \<^verbatim>\<open>hasattr(pos, 'solar_condition') and pos.solar_condition.condition == "Combustion"\<close>
  the second half is evaluated only for a position that has the attribute.
\<close>

definition translation_found ::
  "HoraryChart \<Rightarrow> Planet \<Rightarrow> Planet \<Rightarrow> Planet \<Rightarrow> PlanetPosition \<Rightarrow> AspectInfo \<Rightarrow> AspectInfo
     \<Rightarrow> string \<Rightarrow> string \<Rightarrow> translation option" where
  "translation_found chart querent quesited p pos querent_aspect quesited_aspect sequence sequence_note =
     do {
       reception_querent_data \<leftarrow> calculate_comprehensive_reception chart p querent;
       reception_quesited_data \<leftarrow> calculate_comprehensive_reception chart p quesited;
       let reception_with_querent = (reception_type reception_querent_data \<noteq> ''none'');
       let reception_with_quesited = (reception_type reception_quesited_data \<noteq> ''none'');
       let reception_bonus = (if reception_with_querent \<or> reception_with_quesited then 10 else 0);
       let reception_note =
         (if reception_with_querent \<or> reception_with_quesited then '' with reception'' else []);
       let reception_display =
         (if reception_with_querent then display_text reception_querent_data
          else if reception_with_quesited then display_text reception_quesited_data
          else []);
       let confidence0 = 65 + reception_bonus;
       let combustion_penalty = (if hasattr_position pos ''solar_condition'' then 15 else 0);
       let confidence1 = confidence0 - combustion_penalty;
       let hard =
         (py_in (Member (aspect querent_aspect)) [Str ''Square'', Str ''Opposition'']
          \<or> py_in (Member (aspect quesited_aspect)) [Str ''Square'', Str ''Opposition'']);
       let favorable = (\<not> hard);
       let confidence2 = (if hard then confidence1 - 5 else confidence1);
       Some \<lparr>tl_translator = p, tl_favorable = favorable,
             tl_confidence = min 95 (max 35 confidence2),
             tl_sequence = sequence @ reception_note @ sequence_note,
             tl_reception = (if reception_display \<noteq> [] then reception_display else ''none''),
             tl_combustion_penalty = combustion_penalty\<rparr>
     }"

text \<open>
  One pass of the loop body for the candidate \<open>p\<close> at \<open>pos\<close>: \<open>Some None\<close> is
  \<^verbatim>\<open>continue\<close>, \<open>Some (Some t)\<close> is \<^verbatim>\<open>return\<close>, \<^const>\<open>None\<close> a raised exception.
\<close>

definition translation_candidate ::
  "config \<Rightarrow> HoraryChart \<Rightarrow> Planet \<Rightarrow> Planet \<Rightarrow> Planet \<Rightarrow> PlanetPosition
     \<Rightarrow> translation option option" where
  "translation_candidate cfg chart querent quesited p pos =
     do {
       querent_pos \<leftarrow> map_of (planets chart) querent;
       quesited_pos \<leftarrow> map_of (planets chart) quesited;
       if require_speed_advantage (cfg_translation (cfg_moon cfg))
          \<and> \<not> (\<bar>speed pos\<bar> > \<bar>speed querent_pos\<bar> \<and> \<bar>speed pos\<bar> > \<bar>speed quesited_pos\<bar>)
       then Some None
       else do {
         found \<leftarrow> translator_aspects_loop chart p querent quesited (aspects chart) (None, None);
         (case found of
            (Some querent_aspect, Some quesited_aspect) \<Rightarrow>
              (case translation_sequence chart p querent quesited querent_aspect quesited_aspect of
                 None \<Rightarrow> Some None
               | Some (sequence, separating_aspect, applying_aspect) \<Rightarrow>
                   if require_proper_sequence (cfg_translation (cfg_moon cfg)) then
                     do {
                       intervening \<leftarrow>
                         check_intervening_aspects chart p separating_aspect applying_aspect;
                       if intervening \<noteq> [] then Some None
                       else map_option Some
                              (translation_found chart querent quesited p pos querent_aspect
                                 quesited_aspect sequence '' (immediate sequence)'')
                     }
                   else map_option Some
                          (translation_found chart querent quesited p pos querent_aspect
                             quesited_aspect sequence []))
          | _ \<Rightarrow> Some None)
       }
     }"

fun translation_loop ::
  "config \<Rightarrow> HoraryChart \<Rightarrow> Planet \<Rightarrow> Planet \<Rightarrow> (Planet \<times> PlanetPosition) list
     \<Rightarrow> translation option option" where
  "translation_loop cfg chart querent quesited [] = Some None"
| "translation_loop cfg chart querent quesited ((p, pos) # rest) =
     (if p \<in> set [querent, quesited] then translation_loop cfg chart querent quesited rest
      else
        (case translation_candidate cfg chart querent quesited p pos of
           None \<Rightarrow> None
         | Some None \<Rightarrow> translation_loop cfg chart querent quesited rest
         | Some (Some t) \<Rightarrow> Some (Some t)))"

definition check_enhanced_translation_of_light ::
  "config \<Rightarrow> HoraryChart \<Rightarrow> Planet \<Rightarrow> Planet \<Rightarrow> translation option option" where
  "check_enhanced_translation_of_light cfg chart querent quesited =
     translation_loop cfg chart querent quesited (planets chart)"

text \<open>\<^verbatim>\<open>_find_applying_aspect\<close>: the dict of the first applying aspect of the pair.\<close>

record found_aspect =
  fd_aspect :: Aspect
  fd_orb :: real
  fd_degrees_to_exact :: real

definition find_applying_aspect :: "HoraryChart \<Rightarrow> Planet \<Rightarrow> Planet \<Rightarrow> found_aspect option" where
  "find_applying_aspect chart p1 p2 =
     map_option
       (\<lambda>a. \<lparr>fd_aspect = aspect a, fd_orb = orb a, fd_degrees_to_exact = degrees_to_exact a\<rparr>)
       (find (\<lambda>a. ((planet1 a = p1 \<and> planet2 a = p2) \<or> (planet1 a = p2 \<and> planet2 a = p1))
                   \<and> applying a)
          (aspects chart))"

text \<open>
  \<^verbatim>\<open>_format_aspect_for_display\<close>. Every value of its table \<^verbatim>\<open>aspect_symbols\<close> is the
  empty string in the source, and so is the default of the lookup: the symbol is empty
  whatever the aspect.
\<close>

definition format_aspect_for_display :: "string \<Rightarrow> string \<Rightarrow> bool \<Rightarrow> string" where
  "format_aspect_for_display name1 name2 is_applying =
     (let symbol = [];
          status = (if is_applying then ''applying'' else ''separating'')
      in name1 @ '' '' @ symbol @ '' '' @ name2 @ '' ('' @ status @ '')'')"

text \<open>\<^verbatim>\<open>_enhanced_perfects_in_sign\<close>.\<close>

definition enhanced_perfects_in_sign ::
  "(real \<Rightarrow> real \<Rightarrow> real option) \<Rightarrow> PlanetPosition \<Rightarrow> PlanetPosition \<Rightarrow> found_aspect \<Rightarrow> bool" where
  "enhanced_perfects_in_sign dse pos1 pos2 aspect_info =
     (let days_to_exit_1 = dse (longitude pos1) (speed pos1);
          days_to_exit_2 = dse (longitude pos2) (speed pos2);
          relative_speed = \<bar>speed pos1 - speed pos2\<bar>
      in if relative_speed = 0 then False
         else
           (let dtp = fd_degrees_to_exact aspect_info / relative_speed
            in if truthy days_to_exit_1 \<and> dtp > the days_to_exit_1 then False
               else if truthy days_to_exit_2 \<and> dtp > the days_to_exit_2 then False
               else True))"

text \<open>
  \<^verbatim>\<open>_check_enhanced_mutual_reception\<close> and \<^verbatim>\<open>_detect_reception_between_planets\<close> (the
  same body), \<^verbatim>\<open>_format_reception_for_display\<close> and \<^verbatim>\<open>_check_dignified_reception\<close>.
\<close>

definition check_enhanced_mutual_reception :: "HoraryChart \<Rightarrow> Planet \<Rightarrow> Planet \<Rightarrow> string option" where
  "check_enhanced_mutual_reception chart p1 p2 =
     map_option reception_type (calculate_comprehensive_reception chart p1 p2)"

definition detect_reception_between_planets :: "HoraryChart \<Rightarrow> Planet \<Rightarrow> Planet \<Rightarrow> string option" where
  "detect_reception_between_planets chart p1 p2 =
     map_option reception_type (calculate_comprehensive_reception chart p1 p2)"

definition format_reception_for_display :: "HoraryChart \<Rightarrow> Planet \<Rightarrow> Planet \<Rightarrow> string option" where
  "format_reception_for_display chart p1 p2 =
     map_option display_text (calculate_comprehensive_reception chart p1 p2)"

definition check_dignified_reception :: "HoraryChart \<Rightarrow> Planet \<Rightarrow> Planet \<Rightarrow> bool option" where
  "check_dignified_reception chart receiving_planet received_planet =
     map_option (\<lambda>d. planet1_receives_planet2 d \<noteq> [])
       (calculate_comprehensive_reception chart receiving_planet received_planet)"

text \<open>\<^verbatim>\<open>_is_aspect_favorable_enhanced\<close>.\<close>

definition is_aspect_favorable_enhanced ::
  "Aspect \<Rightarrow> string \<Rightarrow> HoraryChart \<Rightarrow> Planet \<Rightarrow> Planet \<Rightarrow> bool option" where
  "is_aspect_favorable_enhanced a reception chart querent quesited =
     (let favorable_aspects = [CONJUNCTION, SEXTILE, TRINE];
          unfavorable_aspects = [SQUARE, OPPOSITION];
          base_favorable = (a \<in> set favorable_aspects)
      in if reception \<in> set [''mutual_rulership'', ''mutual_exaltation'', ''mixed_reception'']
         then Some True
         else do {
           querent_pos \<leftarrow> map_of (planets chart) querent;
           quesited_pos \<leftarrow> map_of (planets chart) quesited;
           let cadent_houses = [3, 6, 9, 12];
           let querent_cadent = (house querent_pos \<in> set cadent_houses);
           let quesited_cadent = (house quesited_pos \<in> set cadent_houses);
           let querent_weak = (dignity_score querent_pos < - 5);
           let quesited_weak = (dignity_score quesited_pos < - 5);
           let needs_reception = (querent_cadent \<or> quesited_cadent \<or> querent_weak \<or> quesited_weak);
           if needs_reception \<and> reception = ''none'' then
             (if a = SEXTILE then Some False
              else if a \<in> set unfavorable_aspects then Some False
              else if a = CONJUNCTION \<and> (querent_weak \<or> quesited_weak) then Some False
              else Some base_favorable)
           else Some base_favorable
         })"

text \<open>
  \<^verbatim>\<open>_check_enhanced_collection_of_light\<close>. \<^verbatim>\<open>_days_to_aspect_perfection\<close> is infinite for
  a relative speed of 0. A candidate that passes the four requirements reaches
  \<^verbatim>\<open>aspects_from_querent["aspect"].aspect\<close>, an attribute access on a member of
  \<^verbatim>\<open>Aspect\<close>.
\<close>

record collection =
  cl_collector :: Planet
  cl_favorable :: bool
  cl_confidence :: int
  cl_strength :: int

definition days_to_aspect_perfection ::
  "PlanetPosition \<Rightarrow> PlanetPosition \<Rightarrow> found_aspect \<Rightarrow> real option" where
  "days_to_aspect_perfection pos1 pos2 aspect_info =
     (let relative_speed = \<bar>speed pos1 - speed pos2\<bar>
      in if relative_speed > 0 then Some (fd_degrees_to_exact aspect_info / relative_speed)
         else None)"

definition collection_found ::
  "Planet \<Rightarrow> PlanetPosition \<Rightarrow> found_aspect \<Rightarrow> found_aspect \<Rightarrow> collection option" where
  "collection_found p pos aspects_from_querent aspects_from_quesited =
     (let collector_strength = dignity_score pos;
          base0 = (if collector_strength \<ge> 3 then 60 + 15
                   else if collector_strength \<ge> 0 then 60 + 5 else 60 - 10);
          base1 = (if hasattr_position pos ''solar_condition'' then base0 - 20 else base0)
      in do {
           querent_kind \<leftarrow> aspect_attribute (fd_aspect aspects_from_querent) ''aspect'';
           if py_in querent_kind [Str ''Square'', Str ''Opposition''] then
             Some \<lparr>cl_collector = p, cl_favorable = False,
                   cl_confidence = min 90 (max 30 (base1 - 10)),
                   cl_strength = collector_strength\<rparr>
           else do {
             quesited_kind \<leftarrow> aspect_attribute (fd_aspect aspects_from_quesited) ''aspect'';
             if py_in quesited_kind [Str ''Square'', Str ''Opposition''] then
               Some \<lparr>cl_collector = p, cl_favorable = False,
                     cl_confidence = min 90 (max 30 (base1 - 10)),
                     cl_strength = collector_strength\<rparr>
             else
               Some \<lparr>cl_collector = p, cl_favorable = True,
                     cl_confidence = min 90 (max 30 base1),
                     cl_strength = collector_strength\<rparr>
           }
         })"

definition collection_candidate ::
  "(real \<Rightarrow> real \<Rightarrow> real option) \<Rightarrow> config \<Rightarrow> HoraryChart \<Rightarrow> Planet \<Rightarrow> Planet \<Rightarrow> Planet
     \<Rightarrow> PlanetPosition \<Rightarrow> collection option option" where
  "collection_candidate dse cfg chart querent quesited p pos =
     do {
       querent_pos \<leftarrow> map_of (planets chart) querent;
       quesited_pos \<leftarrow> map_of (planets chart) quesited;
       if \<not> (\<bar>speed pos\<bar> < \<bar>speed querent_pos\<bar> \<and> \<bar>speed pos\<bar> < \<bar>speed quesited_pos\<bar>)
       then Some None
       else
         (case (find_applying_aspect chart querent p, find_applying_aspect chart quesited p) of
            (Some aspects_from_querent, Some aspects_from_quesited) \<Rightarrow>
              do {
                querent_receives_collector \<leftarrow> check_dignified_reception chart querent p;
                quesited_receives_collector \<leftarrow> check_dignified_reception chart quesited p;
                if \<not> (querent_receives_collector \<and> quesited_receives_collector) then Some None
                else
                  (let querent_days_to_sign = dse (longitude querent_pos) (speed querent_pos);
                       quesited_days_to_sign = dse (longitude quesited_pos) (speed quesited_pos);
                       querent_collection_days =
                         days_to_aspect_perfection querent_pos pos aspects_from_querent;
                       quesited_collection_days =
                         days_to_aspect_perfection quesited_pos pos aspects_from_quesited;
                       timing_valid =
                         (\<not> (truthy querent_days_to_sign
                              \<and> exceeds querent_collection_days (the querent_days_to_sign))
                          \<and> \<not> (truthy quesited_days_to_sign
                              \<and> exceeds quesited_collection_days (the quesited_days_to_sign)))
                   in if \<not> timing_valid then Some None
                      else map_option Some
                             (collection_found p pos aspects_from_querent aspects_from_quesited))
              }
          | _ \<Rightarrow> Some None)
     }"

fun collection_loop ::
  "(real \<Rightarrow> real \<Rightarrow> real option) \<Rightarrow> config \<Rightarrow> HoraryChart \<Rightarrow> Planet \<Rightarrow> Planet
     \<Rightarrow> (Planet \<times> PlanetPosition) list \<Rightarrow> collection option option" where
  "collection_loop dse cfg chart querent quesited [] = Some None"
| "collection_loop dse cfg chart querent quesited ((p, pos) # rest) =
     (if p \<in> set [querent, quesited] then collection_loop dse cfg chart querent quesited rest
      else
        (case collection_candidate dse cfg chart querent quesited p pos of
           None \<Rightarrow> None
         | Some None \<Rightarrow> collection_loop dse cfg chart querent quesited rest
         | Some (Some c) \<Rightarrow> Some (Some c)))"

definition check_enhanced_collection_of_light ::
  "(real \<Rightarrow> real \<Rightarrow> real option) \<Rightarrow> config \<Rightarrow> HoraryChart \<Rightarrow> Planet \<Rightarrow> Planet
     \<Rightarrow> collection option option" where
  "check_enhanced_collection_of_light dse cfg chart querent quesited =
     collection_loop dse cfg chart querent quesited (planets chart)"

text \<open>
  \<^verbatim>\<open>_check_enhanced_perfection\<close>. The returned dict is the record \<open>perfection\<close>; a key
  that a branch does not set is \<^const>\<open>None\<close>. \<^verbatim>\<open>int(x)\<close> truncates toward zero.
\<close>

definition py_int :: "real \<Rightarrow> int" where
  "py_int x = (if 0 \<le> x then \<lfloor>x\<rfloor> else \<lceil>x\<rceil>)"

record perfection =
  perfects :: bool
  pf_type :: "string option"
  pf_favorable :: "bool option"
  pf_confidence :: "int option"
  pf_reason :: fstring
  pf_reception :: "string option"
  pf_aspect :: "found_aspect option"
  pf_translator :: "Planet option"
  pf_collector :: "Planet option"

text \<open>The branch taken for a direct applying aspect that perfects in sign.\<close>

definition direct_perfection ::
  "config \<Rightarrow> HoraryChart \<Rightarrow> Planet \<Rightarrow> Planet \<Rightarrow> real \<Rightarrow> found_aspect \<Rightarrow> perfection option" where
  "direct_perfection cfg chart querent quesited exaltation_confidence_boost direct_aspect =
     do {
       reception \<leftarrow> check_enhanced_mutual_reception chart querent quesited;
       if reception = ''mutual_rulership'' then
         do {
           shown \<leftarrow> format_reception_for_display chart querent quesited;
           Some \<lparr>perfects = True, pf_type = Some ''direct'', pf_favorable = Some True,
                 pf_confidence =
                   Some (direct_with_mutual_rulership (cfg_perfection (cfg_confidence cfg))),
                 pf_reason = [S ''Direct perfection: '',
                   S (format_aspect_for_display (planet_value querent) (planet_value quesited) True),
                   S '' with '', S shown],
                 pf_reception = Some reception, pf_aspect = Some direct_aspect,
                 pf_translator = None, pf_collector = None\<rparr>
         }
       else if reception = ''mutual_exaltation'' then
         do {
           let base_confidence = direct_with_mutual_exaltation (cfg_perfection (cfg_confidence cfg));
           let boosted_confidence = min 100 (real_of_int base_confidence + exaltation_confidence_boost);
           shown \<leftarrow> format_reception_for_display chart querent quesited;
           Some \<lparr>perfects = True, pf_type = Some ''direct'', pf_favorable = Some True,
                 pf_confidence = Some (py_int boosted_confidence),
                 pf_reason = [S ''Direct perfection: '',
                   S (format_aspect_for_display (planet_value querent) (planet_value quesited) True),
                   S '' with '', S shown],
                 pf_reception = Some reception, pf_aspect = Some direct_aspect,
                 pf_translator = None, pf_collector = None\<rparr>
         }
       else
         do {
           favorable \<leftarrow>
             is_aspect_favorable_enhanced (fd_aspect direct_aspect) reception chart querent quesited;
           let aspect_name = display_name (fd_aspect direct_aspect);
           base_reason \<leftarrow>
             (if \<not> favorable \<and> reception = ''none'' then
                do {
                  querent_pos \<leftarrow> map_of (planets chart) querent;
                  quesited_pos \<leftarrow> map_of (planets chart) quesited;
                  let cadent_houses = [3, 6, 9, 12];
                  let denial_reasons =
                    (if house quesited_pos \<in> set cadent_houses
                     then [[S (planet_value quesited), S '' in cadent '', I (house quesited_pos),
                            S ''th house'']] else [])
                    @ (if dignity_score quesited_pos < - 5
                       then [[S (planet_value quesited), S '' severely weak (dignity '',
                              I (dignity_score quesited_pos), S '')'']] else [])
                    @ (if house querent_pos \<in> set cadent_houses
                       then [[S (planet_value querent), S '' in cadent '', I (house querent_pos),
                              S ''th house'']] else [])
                    @ (if dignity_score querent_pos < - 5
                       then [[S (planet_value querent), S '' severely weak (dignity '',
                              I (dignity_score querent_pos), S '')'']] else []);
                  Some (if denial_reasons \<noteq> [] then
                          [S aspect_name, S '' found but denied: '']
                          @ join [S ''; ''] denial_reasons
                          @ [S '' require reception for positive perfection'']
                        else [S aspect_name, S '' found but unfavorable without reception''])
                }
              else Some [S aspect_name, S '' between significators'']);
           Some \<lparr>perfects = favorable,
                 pf_type = Some (if favorable then ''direct'' else ''direct_denied''),
                 pf_favorable = Some favorable,
                 pf_confidence =
                   Some (if favorable then direct_basic (cfg_perfection (cfg_confidence cfg)) else 75),
                 pf_reason = base_reason,
                 pf_reception = Some reception, pf_aspect = Some direct_aspect,
                 pf_translator = None, pf_collector = None\<rparr>
         }
     }"

text \<open>The tail of the function: perfection by reception alone, or none.\<close>

definition reception_perfection ::
  "config \<Rightarrow> HoraryChart \<Rightarrow> Planet \<Rightarrow> Planet \<Rightarrow> real \<Rightarrow> perfection option" where
  "reception_perfection cfg chart querent quesited exaltation_confidence_boost =
     do {
       reception \<leftarrow> check_enhanced_mutual_reception chart querent quesited;
       if reception = ''mutual_rulership'' then
         do {
           shown \<leftarrow> format_reception_for_display chart querent quesited;
           Some \<lparr>perfects = True, pf_type = Some ''reception'', pf_favorable = Some True,
                 pf_confidence = Some (reception_only (cfg_perfection (cfg_confidence cfg))),
                 pf_reason = [S ''Reception: '', S shown, S '' - unconditional perfection''],
                 pf_reception = Some reception, pf_aspect = None,
                 pf_translator = None, pf_collector = None\<rparr>
         }
       else if reception = ''mutual_exaltation'' then
         do {
           let boosted_confidence =
             min 100 (real_of_int (reception_only (cfg_perfection (cfg_confidence cfg)))
                      + exaltation_confidence_boost);
           shown \<leftarrow> format_reception_for_display chart querent quesited;
           Some \<lparr>perfects = True, pf_type = Some ''reception'', pf_favorable = Some True,
                 pf_confidence = Some (py_int boosted_confidence),
                 pf_reason = [S ''Reception: '', S shown, S '' (+'', R exaltation_confidence_boost,
                              S ''% confidence)''],
                 pf_reception = Some reception, pf_aspect = None,
                 pf_translator = None, pf_collector = None\<rparr>
         }
       else
         Some \<lparr>perfects = False, pf_type = None, pf_favorable = None, pf_confidence = None,
               pf_reason = [S ''No perfection found between significators''],
               pf_reception = None, pf_aspect = None, pf_translator = None, pf_collector = None\<rparr>
     }"

text \<open>The steps between: translation and collection, tried when there is no direct aspect.\<close>

definition indirect_perfection ::
  "(real \<Rightarrow> real \<Rightarrow> real option) \<Rightarrow> config \<Rightarrow> HoraryChart \<Rightarrow> Planet \<Rightarrow> Planet \<Rightarrow> real
     \<Rightarrow> perfection option" where
  "indirect_perfection dse cfg chart querent quesited exaltation_confidence_boost =
     do {
       tl \<leftarrow> check_enhanced_translation_of_light cfg chart querent quesited;
       (case tl of
          Some t \<Rightarrow>
            Some \<lparr>perfects = True, pf_type = Some ''translation'',
                  pf_favorable = Some (tl_favorable t),
                  pf_confidence = Some (translation_of_light (cfg_perfection (cfg_confidence cfg))),
                  pf_reason = [S ''Translation of light by '', S (planet_value (tl_translator t)),
                               S '' - '', S (tl_sequence t)],
                  pf_reception = None, pf_aspect = None,
                  pf_translator = Some (tl_translator t), pf_collector = None\<rparr>
        | None \<Rightarrow>
            do {
              cl \<leftarrow> check_enhanced_collection_of_light dse cfg chart querent quesited;
              (case cl of
                 Some c \<Rightarrow>
                   Some \<lparr>perfects = True, pf_type = Some ''collection'',
                         pf_favorable = Some (cl_favorable c),
                         pf_confidence =
                           Some (collection_of_light (cfg_perfection (cfg_confidence cfg))),
                         pf_reason = [S ''Collection of light by '', S (planet_value (cl_collector c))],
                         pf_reception = None, pf_aspect = None,
                         pf_translator = None, pf_collector = Some (cl_collector c)\<rparr>
               | None \<Rightarrow>
                   reception_perfection cfg chart querent quesited exaltation_confidence_boost)
            })
     }"

text \<open>
  The test for a conjunction with the Sun that burns the other significator. Its second
  half, \<^verbatim>\<open>other_pos.solar_condition.condition == "Combustion"\<close>, is only evaluated when
  the position has the attribute.
\<close>

definition combustion_denial ::
  "HoraryChart \<Rightarrow> Planet \<Rightarrow> Planet \<Rightarrow> found_aspect \<Rightarrow> Planet \<Rightarrow> perfection option" where
  "combustion_denial chart querent quesited direct_aspect other_planet =
     do {
       reception \<leftarrow> detect_reception_between_planets chart querent quesited;
       Some \<lparr>perfects = False, pf_type = Some ''combustion_denial'', pf_favorable = Some False,
             pf_confidence = Some 85,
             pf_reason = [S ''Combustion denial: '', S (planet_value other_planet),
                          S '' conjunct Sun causes combustion, not perfection''],
             pf_reception = Some reception, pf_aspect = Some direct_aspect,
             pf_translator = None, pf_collector = None\<rparr>
     }"

definition check_enhanced_perfection ::
  "(real \<Rightarrow> real \<Rightarrow> real option) \<Rightarrow> config \<Rightarrow> HoraryChart \<Rightarrow> Planet \<Rightarrow> Planet \<Rightarrow> real
     \<Rightarrow> perfection option" where
  "check_enhanced_perfection dse cfg chart querent quesited exaltation_confidence_boost =
     do {
       querent_pos \<leftarrow> map_of (planets chart) querent;
       quesited_pos \<leftarrow> map_of (planets chart) quesited;
       (case find_applying_aspect chart querent quesited of
          Some direct_aspect \<Rightarrow>
            (let other_planet =
                   (if fd_aspect direct_aspect = CONJUNCTION then
                      (if querent = SUN then Some quesited
                       else if quesited = SUN then Some querent else None)
                    else None);
                 burnt =
                   (case other_planet of
                      None \<Rightarrow> False
                    | Some other \<Rightarrow>
                        (case map_of (planets chart) other of
                           None \<Rightarrow> False
                         | Some other_pos \<Rightarrow> hasattr_position other_pos ''solar_condition''))
             in if burnt then
                  combustion_denial chart querent quesited direct_aspect (the other_planet)
                else if enhanced_perfects_in_sign dse querent_pos quesited_pos direct_aspect then
                  direct_perfection cfg chart querent quesited exaltation_confidence_boost
                    direct_aspect
                else reception_perfection cfg chart querent quesited exaltation_confidence_boost)
        | None \<Rightarrow>
            indirect_perfection dse cfg chart querent quesited exaltation_confidence_boost)
     }"

section \<open>Judgment\<close>

text \<open>\<^verbatim>\<open>_get_sign\<close>.\<close>

definition get_sign :: "real \<Rightarrow> Sign" where
  "get_sign lon =
     (case find (\<lambda>sg. start_degree sg \<le> pymod lon 360 \<and> pymod lon 360 < start_degree sg + 30)
             all_signs of
        Some sg \<Rightarrow> sg
      | None \<Rightarrow> PISCES)"

subsection \<open>Radicality\<close>

text \<open>
  \<^verbatim>\<open>_check_enhanced_radicality\<close> (the later of the two definitions in the class, which is
  the one in force): the pair of \<^verbatim>\<open>valid\<close> and \<^verbatim>\<open>reason\<close>.
\<close>

definition check_enhanced_radicality :: "config \<Rightarrow> HoraryChart \<Rightarrow> bool \<Rightarrow> (bool \<times> fstring) option" where
  "check_enhanced_radicality cfg chart ignore_saturn_7th_flag =
     (let rc = cfg_radicality cfg;
          asc_degree = pymod (ascendant chart) 30
      in if asc_degree < asc_too_early rc then
           Some (False, [S ''Ascendant too early at '', F1 asc_degree,
                         S '' - question premature or not mature''])
         else if asc_degree > asc_too_late rc then
           Some (False, [S ''Ascendant too late at '', F1 asc_degree,
                         S '' - question too late or already decided''])
         else do {
           saturn_in_7th \<leftarrow>
             (if saturn_7th_enabled rc \<and> \<not> ignore_saturn_7th_flag
              then map_option (\<lambda>saturn_pos. house saturn_pos = 7) (map_of (planets chart) SATURN)
              else Some False);
           if saturn_in_7th then
             Some (False, [S ''Saturn in 7th house - astrologer may err in judgment (Bonatti)''])
           else if via_combusta_enabled rc then
             do {
               moon_pos \<leftarrow> map_of (planets chart) MOON;
               let moon_degree_in_sign = pymod (longitude moon_pos) 30;
               let via_combusta = cfg_via_combusta rc;
               if (sign moon_pos = LIBRA \<and> moon_degree_in_sign > libra_start via_combusta)
                  \<or> (sign moon_pos = SCORPIO \<and> moon_degree_in_sign \<le> scorpio_end via_combusta)
               then Some (False, [S ''Moon in Via Combusta ('', S (sign_name (sign moon_pos)),
                                  S '' '', F1 moon_degree_in_sign,
                                  S '') - volatile or corrupted matter''])
               else Some (True, [S ''Chart is radical - Ascendant at '', F1 asc_degree])
             }
           else Some (True, [S ''Chart is radical - Ascendant at '', F1 asc_degree])
         })"

subsection \<open>Significators\<close>

text \<open>
  The dict \<^verbatim>\<open>question_analysis\<close> as far as the judgment reads it: the question type and
  the entry \<^verbatim>\<open>significators\<close>. A key that is absent is \<^const>\<open>False\<close>, \<^const>\<open>None\<close> or the
  empty dict.
\<close>

record significator_info =
  si_transaction_type :: bool
  si_quesited_house :: "int option"
  si_special_significators :: "(string \<times> string) list"
  si_third_person_education :: bool
  si_student_house :: "int option"
  si_success_house :: "int option"

record question_analysis =
  qa_question_type :: "string option"
  qa_significators :: significator_info

text \<open>\<^verbatim>\<open>str.upper\<close> on ASCII text and \<^verbatim>\<open>getattr(Planet, name)\<close> for an upper-case name.\<close>

definition upper_char :: "char \<Rightarrow> char" where
  "upper_char c =
     (case map_of (zip ''abcdefghijklmnopqrstuvwxyz'' ''ABCDEFGHIJKLMNOPQRSTUVWXYZ'') c of
        Some u \<Rightarrow> u
      | None \<Rightarrow> c)"

definition upper :: "string \<Rightarrow> string" where
  "upper s = map upper_char s"

definition planet_members :: "(string \<times> Planet) list" where
  "planet_members =
     [(''SUN'', SUN), (''MOON'', MOON), (''MERCURY'', MERCURY), (''VENUS'', VENUS),
      (''MARS'', MARS), (''JUPITER'', JUPITER), (''SATURN'', SATURN), (''ASC'', ASC),
      (''MC'', MC)]"

text \<open>
  \<^verbatim>\<open>_identify_significators\<close>. The result is the dict with \<^verbatim>\<open>valid: False\<close> and its
  reason, or the dict of the significators. A transaction question for which no item has
  a natural significator runs off the end of the function, which then returns \<^verbatim>\<open>None\<close>;
  both callers subscript the result at once and raise, so this case is \<^const>\<open>None\<close> here.
\<close>

record significators =
  sg_querent :: Planet
  sg_quesited :: Planet
  sg_item_significator :: "Planet option"
  sg_item_name :: "string option"
  sg_transaction_type :: bool
  sg_third_person_education :: bool
  sg_student :: "Planet option"
  sg_same_ruler_analysis :: "Planet option"

datatype significators_result = Invalid string | Valid significators

definition identify_significators ::
  "HoraryChart \<Rightarrow> question_analysis \<Rightarrow> significators_result option" where
  "identify_significators chart qa =
     (let querent_house = 1;
          querent_ruler = map_of (house_rulers chart) querent_house;
          info = qa_significators qa
      in if si_transaction_type info then
           do {
             quesited_house \<leftarrow> si_quesited_house info;
             let quesited_ruler = map_of (house_rulers chart) quesited_house;
             let natural_sigs = si_special_significators info;
             (case (querent_ruler, quesited_ruler) of
                (Some qr, Some sr) \<Rightarrow>
                  (case find (\<lambda>(item, planet_name).
                               item \<noteq> ''category'' \<and> item \<noteq> ''traditional_source''
                               \<and> map_of planet_members (upper planet_name) \<noteq> None)
                          natural_sigs of
                     Some (item, planet_name) \<Rightarrow>
                       Some (Valid
                         \<lparr>sg_querent = qr, sg_quesited = sr,
                          sg_item_significator = map_of planet_members (upper planet_name),
                          sg_item_name = Some item, sg_transaction_type = True,
                          sg_third_person_education = False, sg_student = None,
                          sg_same_ruler_analysis = None\<rparr>)
                   | None \<Rightarrow> None)
              | _ \<Rightarrow> Some (Invalid ''Cannot determine house rulers''))
           }
         else if si_third_person_education info then
           (let student_house = (case si_student_house info of None \<Rightarrow> 7 | Some h \<Rightarrow> h);
                success_house = (case si_success_house info of None \<Rightarrow> 10 | Some h \<Rightarrow> h);
                student_ruler = map_of (house_rulers chart) student_house;
                success_ruler = map_of (house_rulers chart) success_house
            in case (querent_ruler, student_ruler, success_ruler) of
                 (Some qr, Some st, Some su) \<Rightarrow>
                   Some (Valid
                     \<lparr>sg_querent = qr, sg_quesited = su,
                      sg_item_significator = None, sg_item_name = None,
                      sg_transaction_type = False, sg_third_person_education = True,
                      sg_student = Some st, sg_same_ruler_analysis = None\<rparr>)
               | _ \<Rightarrow>
                   Some (Invalid
                     ''Cannot determine house rulers for 3rd person education question''))
         else
           do {
             quesited_house \<leftarrow> si_quesited_house info;
             let quesited_ruler = map_of (house_rulers chart) quesited_house;
             (case (querent_ruler, quesited_ruler) of
                (Some qr, Some sr) \<Rightarrow>
                  (let same_ruler_analysis = (if qr = sr then Some qr else None)
                   in Some (Valid
                        \<lparr>sg_querent = qr, sg_quesited = sr,
                         sg_item_significator = None, sg_item_name = None,
                         sg_transaction_type = False, sg_third_person_education = False,
                         sg_student = None, sg_same_ruler_analysis = same_ruler_analysis\<rparr>))
              | _ \<Rightarrow> Some (Invalid ''Cannot determine house rulers''))
           })"

subsection \<open>Overrides of the void Moon denial\<close>

text \<open>
  \<^verbatim>\<open>TraditionalOverrides.check_moon_translation_clean\<close>. The loop keeps the last aspect
  of the Moon with the querent's planet and, in its \<^verbatim>\<open>elif\<close>, the last with the
  quesited's; the value is the key \<^verbatim>\<open>clean\<close>.
\<close>

fun moon_aspects_loop ::
  "Planet \<Rightarrow> Planet \<Rightarrow> AspectInfo list \<Rightarrow> AspectInfo option \<times> AspectInfo option
     \<Rightarrow> AspectInfo option \<times> AspectInfo option" where
  "moon_aspects_loop querent quesited [] acc = acc"
| "moon_aspects_loop querent quesited (a # rest) (moon_to_querent, moon_to_quesited) =
     (if (planet1 a = MOON \<and> planet2 a = querent) \<or> (planet2 a = MOON \<and> planet1 a = querent)
      then moon_aspects_loop querent quesited rest (Some a, moon_to_quesited)
      else if (planet1 a = MOON \<and> planet2 a = quesited) \<or> (planet2 a = MOON \<and> planet1 a = quesited)
      then moon_aspects_loop querent quesited rest (moon_to_querent, Some a)
      else moon_aspects_loop querent quesited rest (moon_to_querent, moon_to_quesited))"

definition check_moon_translation_clean :: "HoraryChart \<Rightarrow> Planet \<Rightarrow> Planet \<Rightarrow> bool option" where
  "check_moon_translation_clean chart querent quesited =
     do {
       moon_pos \<leftarrow> map_of (planets chart) MOON;
       (case moon_aspects_loop querent quesited (aspects chart) (None, None) of
          (Some moon_to_querent, Some moon_to_quesited) \<Rightarrow>
            Some (applying moon_to_querent \<and> applying moon_to_quesited
                  \<and> dignity_score moon_pos \<ge> 0)
        | _ \<Rightarrow> Some False)
     }"

text \<open>\<^verbatim>\<open>TraditionalOverrides.check_void_moon_overrides\<close>: the key \<^verbatim>\<open>can_override\<close>.\<close>

definition check_void_moon_overrides :: "HoraryChart \<Rightarrow> question_analysis \<Rightarrow> bool option" where
  "check_void_moon_overrides chart qa =
     do {
       sigs \<leftarrow> identify_significators chart qa;
       (case sigs of
          Invalid _ \<Rightarrow> Some False
        | Valid sg \<Rightarrow> check_moon_translation_clean chart (sg_querent sg) (sg_quesited sg))
     }"

subsection \<open>Solar factors\<close>

text \<open>
  \<^verbatim>\<open>round(x, 4)\<close> and \<^verbatim>\<open>_analyze_enhanced_solar_factors\<close>. Python rounds the exact
  binary value of the float to the nearest multiple of 0.0001, ties to even; \<open>round4\<close>
  does the same to the real number, which is right when the real is the value of the
  float. A decimal such as 1.99995 is not: the float nearest to it lies below it and is
  rounded down by the code. An entry of \<^verbatim>\<open>detailed_analyses\<close> keeps the planet's name, the
  rounded distance and the name of the condition.
\<close>

definition round_half_even :: "real \<Rightarrow> int" where
  "round_half_even x =
     (let f = \<lfloor>x\<rfloor>; r = x - of_int f
      in if r < 1 / 2 then f else if r > 1 / 2 then f + 1 else if even f then f else f + 1)"

definition round4 :: "real \<Rightarrow> real" where
  "round4 x = of_int (round_half_even (x * 10000)) / 10000"

record solar_factors =
  sf_significant :: bool
  sf_cazimi_count :: nat
  sf_combustion_count :: nat
  sf_under_beams_count :: nat
  sf_detailed_analyses :: "(string \<times> (string \<times> real \<times> string)) list"

definition analyze_enhanced_solar_factors ::
  "HoraryChart \<Rightarrow> Planet \<Rightarrow> Planet \<Rightarrow> bool \<Rightarrow> solar_factors" where
  "analyze_enhanced_solar_factors chart querent quesited ignore_combustion_flag =
     (let analyses = solar_analyses chart;
          cazimi_planets = filter (\<lambda>(p, a). condition a = CAZIMI) analyses;
          combusted_planets =
            filter (\<lambda>(p, a). condition a = COMBUSTION \<and> \<not> ignore_combustion_flag) analyses;
          under_beams_planets =
            filter (\<lambda>(p, a). condition a = UNDER_BEAMS \<and> \<not> ignore_combustion_flag) analyses;
          summary_parts =
            (if cazimi_planets \<noteq> [] then [''Cazimi''] else [])
            @ (if combusted_planets \<noteq> [] then [''Combusted''] else [])
            @ (if under_beams_planets \<noteq> [] then [''Under Beams''] else [])
            @ (if ignore_combustion_flag \<and> (combusted_planets \<noteq> [] \<or> under_beams_planets \<noteq> [])
               then [''(Combustion effects ignored by override)''] else [])
      in \<lparr>sf_significant = (length summary_parts > 0),
          sf_cazimi_count = length cazimi_planets,
          sf_combustion_count = (if \<not> ignore_combustion_flag then length combusted_planets else 0),
          sf_under_beams_count = (if \<not> ignore_combustion_flag then length under_beams_planets else 0),
          sf_detailed_analyses =
            map (\<lambda>(p, a). (planet_value p,
                   (planet_value p, round4 (distance_from_sun a), condition_name (condition a))))
              analyses\<rparr>)"

text \<open>
  The combustion part of the judgment's solar stage: whether a planet is among the
  combusted entries, and what one combusted significator adds to \<^verbatim>\<open>severe_impediments\<close>
  and \<^verbatim>\<open>combustion_penalty\<close>.
\<close>

definition combusted_names :: "solar_factors \<Rightarrow> string list" where
  "combusted_names sf =
     map (\<lambda>(k, (name, d, c)). name)
       (filter (\<lambda>(k, (name, d, c)). c = ''Combustion'') (sf_detailed_analyses sf))"

definition combustion_impediment ::
  "HoraryChart \<Rightarrow> solar_factors \<Rightarrow> Planet \<Rightarrow> (nat \<times> int) option" where
  "combustion_impediment chart sf p =
     (if planet_value p \<in> set (combusted_names sf) then
        do {
          let distance =
            (case map_of (sf_detailed_analyses sf) (planet_value p) of
               Some (name, d, c) \<Rightarrow> d
             | None \<Rightarrow> 0);
          pos \<leftarrow> map_of (planets chart) p;
          let planet_dignity = dignity_score pos;
          let (severe, penalty) =
            (if distance < 1 then (1, 40)
             else if distance < 2 then (0, 25)
             else if distance < 5 then (0, 15)
             else (0, 10));
          Some (if planet_dignity \<le> - 4 \<and> distance < 3 then severe + 1 else severe, penalty)
        }
      else Some (0, 0))"

subsection \<open>Translation in a transaction\<close>

text \<open>
  \<^verbatim>\<open>_check_transaction_translation\<close>: for each candidate the pairs of an aspect to the
  item and an aspect to a party, in the order of the two nested loops, and the first pair
  in which the translator separates from one and applies to the other.
\<close>

record transaction_translation =
  tt_favorable :: bool
  tt_confidence :: int
  tt_translator :: Planet
  tt_pattern :: string

definition transaction_candidate ::
  "HoraryChart \<Rightarrow> Planet \<Rightarrow> Planet \<Rightarrow> Planet \<Rightarrow> Planet \<Rightarrow> PlanetPosition
     \<Rightarrow> transaction_translation option" where
  "transaction_candidate chart seller buyer item translator_planet pos =
     (let translator_aspects =
            map (\<lambda>a. (if planet1 a = translator_planet then planet2 a else planet1 a, a))
              (filter (\<lambda>a. planet1 a = translator_planet \<or> planet2 a = translator_planet)
                 (aspects chart));
          item_aspects = filter (\<lambda>(other, a). other = item) translator_aspects;
          seller_aspects = filter (\<lambda>(other, a). other = seller) translator_aspects;
          buyer_aspects = filter (\<lambda>(other, a). other = buyer) translator_aspects;
          pairs = concat (map (\<lambda>item_aspect.
                    map (\<lambda>party_aspect. (snd item_aspect, snd party_aspect))
                      (seller_aspects @ buyer_aspects)) item_aspects)
      in case find (\<lambda>(item_aspect, party_aspect).
                     (\<not> applying item_aspect \<and> applying party_aspect)
                     \<or> (\<not> applying party_aspect \<and> applying item_aspect)) pairs of
           None \<Rightarrow> None
         | Some (item_aspect, party_aspect) \<Rightarrow>
             Some \<lparr>tt_favorable = True,
                   tt_confidence = (if hasattr_position pos ''solar_condition'' then 75 - 10 else 75),
                   tt_translator = translator_planet,
                   tt_pattern = (if \<not> applying item_aspect \<and> applying party_aspect
                                 then ''item_to_party'' else ''party_to_item'')\<rparr>)"

fun transaction_loop ::
  "HoraryChart \<Rightarrow> Planet \<Rightarrow> Planet \<Rightarrow> Planet \<Rightarrow> (Planet \<times> PlanetPosition) list
     \<Rightarrow> transaction_translation option" where
  "transaction_loop chart seller buyer item [] = None"
| "transaction_loop chart seller buyer item ((p, pos) # rest) =
     (if p \<in> set [seller, buyer, item] then transaction_loop chart seller buyer item rest
      else
        (case transaction_candidate chart seller buyer item p pos of
           Some t \<Rightarrow> Some t
         | None \<Rightarrow> transaction_loop chart seller buyer item rest))"

definition check_transaction_translation ::
  "HoraryChart \<Rightarrow> Planet \<Rightarrow> Planet \<Rightarrow> Planet \<Rightarrow> transaction_translation option" where
  "check_transaction_translation chart seller buyer item =
     transaction_loop chart seller buyer item (planets chart)"

subsection \<open>Moon and Sun in education questions\<close>

text \<open>
  \<^verbatim>\<open>_find_separating_aspect\<close> and \<^verbatim>\<open>_check_moon_sun_education_perfection\<close>. The dict of a
  separating aspect has no key \<^verbatim>\<open>degrees_to_exact\<close>; the result built from it is
  \<open>Education_separating\<close>.
\<close>

definition find_separating_aspect :: "HoraryChart \<Rightarrow> Planet \<Rightarrow> Planet \<Rightarrow> AspectInfo option" where
  "find_separating_aspect chart p1 p2 =
     find (\<lambda>a. ((planet1 a = p1 \<and> planet2 a = p2) \<or> (planet1 a = p2 \<and> planet2 a = p1))
               \<and> \<not> applying a)
       (aspects chart)"

datatype education_perfection =
    Education_applying perfection
  | Education_separating Aspect
  | Education_none

definition check_moon_sun_education_perfection :: "HoraryChart \<Rightarrow> education_perfection" where
  "check_moon_sun_education_perfection chart =
     (let favorable_aspects = [''Conjunction'', ''Sextile'', ''Trine''];
          moon_aspect = find_applying_aspect chart MOON SUN;
          separating_aspect = find_separating_aspect chart MOON SUN
      in if moon_aspect \<noteq> None
            \<and> display_name (fd_aspect (the moon_aspect)) \<in> set favorable_aspects
         then Education_applying
                \<lparr>perfects = True, pf_type = Some ''moon_sun_education'', pf_favorable = Some True,
                 pf_confidence = Some 75,
                 pf_reason = [S ''Moon (co-significator) applying '',
                              S (display_name (fd_aspect (the moon_aspect))),
                              S '' to Sun (examiner/authority)''],
                 pf_reception = None, pf_aspect = moon_aspect,
                 pf_translator = None, pf_collector = None\<rparr>
         else if separating_aspect \<noteq> None
            \<and> display_name (aspect (the separating_aspect)) \<in> set favorable_aspects
         then Education_separating (aspect (the separating_aspect))
         else Education_none)"

subsection \<open>Adjustments of the confidence after a perfection\<close>

text \<open>
  \<^verbatim>\<open>_apply_aspect_direction_adjustment\<close> (the later definition). The entry \<^verbatim>\<open>aspect\<close> of a
  perfection is a dict, and \<^verbatim>\<open>hasattr(aspect_info, 'applying')\<close> asks it for an attribute:
  a dict has its methods as attributes, not its keys. No perfection has the key
  \<^verbatim>\<open>translator_analysis\<close>, so the branch for translations reads an empty dict.
\<close>

definition dict_attributes :: "string list" where
  "dict_attributes =
     [''clear'', ''copy'', ''fromkeys'', ''get'', ''items'', ''keys'', ''pop'', ''popitem'',
      ''setdefault'', ''update'', ''values'']"

definition apply_aspect_direction_adjustment :: "int \<Rightarrow> perfection \<Rightarrow> int" where
  "apply_aspect_direction_adjustment conf p =
     (if pf_type p = Some ''direct'' \<and> pf_aspect p \<noteq> None then
        (if ''applying'' \<in> set dict_attributes then max (conf - 30) 15 else conf)
      else conf)"

text \<open>\<^verbatim>\<open>_apply_dignity_confidence_adjustment\<close> and \<^verbatim>\<open>_apply_retrograde_quesited_penalty\<close>.\<close>

definition apply_dignity_confidence_adjustment ::
  "int \<Rightarrow> HoraryChart \<Rightarrow> Planet \<Rightarrow> Planet \<Rightarrow> int option" where
  "apply_dignity_confidence_adjustment conf chart querent quesited =
     do {
       querent_pos \<leftarrow> map_of (planets chart) querent;
       quesited_pos \<leftarrow> map_of (planets chart) quesited;
       let querent_dignity = dignity_score querent_pos;
       let quesited_dignity = dignity_score quesited_pos;
       let conf1 =
         (if quesited_dignity \<le> - 10 then max (conf - 35) 10
          else if quesited_dignity < - 5 then max (conf - 20) 25
          else if quesited_dignity \<ge> 10 then min (conf + 15) 95
          else conf);
       Some (if querent_dignity \<le> - 10 then max (conf1 - 15) 5
             else if querent_dignity \<ge> 10 then min (conf1 + 10) 95
             else conf1)
     }"

definition apply_retrograde_quesited_penalty :: "int \<Rightarrow> HoraryChart \<Rightarrow> Planet \<Rightarrow> int option" where
  "apply_retrograde_quesited_penalty conf chart quesited =
     do {
       quesited_pos \<leftarrow> map_of (planets chart) quesited;
       Some (if retrograde quesited_pos then max (conf - 25) 10 else conf)
     }"

subsection \<open>The Moon's next aspect\<close>

text \<open>
  \<^verbatim>\<open>_is_moon_applying_to_aspect\<close>, \<^verbatim>\<open>_format_timing_description\<close> and
  \<^verbatim>\<open>_calculate_moon_next_aspect\<close> of the calculator, which fills \<^verbatim>\<open>chart.moon_next_aspect\<close>.
  The Moon's speed comes from the ephemeris and is the parameter \<open>moon_speed\<close>; an
  infinite time to exactness is \<^const>\<open>None\<close>.
\<close>

definition is_moon_applying_to_aspect ::
  "PlanetPosition \<Rightarrow> PlanetPosition \<Rightarrow> Aspect \<Rightarrow> real \<Rightarrow> bool" where
  "is_moon_applying_to_aspect moon_pos planet_pos a moon_speed =
     (let time_increment = 1 / 10;
          current_sep = angular_separation (longitude moon_pos) (longitude planet_pos);
          future_moon_lon = pymod (longitude moon_pos + moon_speed * time_increment) 360;
          future_sep = angular_separation future_moon_lon (longitude planet_pos)
      in \<bar>future_sep - degrees a\<bar> < \<bar>current_sep - degrees a\<bar>)"

definition format_timing_description :: "real option \<Rightarrow> fstring" where
  "format_timing_description days =
     (case days of
        None \<Rightarrow> [S ''More than a year'']
      | Some d \<Rightarrow>
          if d < 1 / 2 then [S ''Within hours'']
          else if d < 1 then [S ''Within a day'']
          else if d < 7 then [S ''Within '', I (py_int d), S '' days'']
          else if d < 30 then [S ''Within '', I (py_int (d / 7)), S '' weeks'']
          else if d < 365 then [S ''Within '', I (py_int (d / 30)), S '' months'']
          else [S ''More than a year''])"

definition eta_less :: "real option \<Rightarrow> real option \<Rightarrow> bool" where
  "eta_less x y =
     (case (x, y) of
        (Some a, Some b) \<Rightarrow> a < b
      | (Some a, None) \<Rightarrow> True
      | (None, _) \<Rightarrow> False)"

fun soonest_acc :: "LunarAspect \<Rightarrow> LunarAspect list \<Rightarrow> LunarAspect" where
  "soonest_acc best [] = best"
| "soonest_acc best (x # xs) =
     soonest_acc (if eta_less (perfection_eta_days x) (perfection_eta_days best) then x else best) xs"

definition moon_applying_aspects ::
  "config \<Rightarrow> PlanetPosition \<Rightarrow> (Planet \<times> PlanetPosition) list \<Rightarrow> real \<Rightarrow> LunarAspect list" where
  "moon_applying_aspects cfg moon_pos ps moon_speed =
     concat (map (\<lambda>(p, planet_pos).
       if p = MOON then []
       else
         (let separation = angular_separation (longitude moon_pos) (longitude planet_pos)
          in concat (map (\<lambda>aspect_type.
               (let orb_diff = \<bar>separation - degrees aspect_type\<bar>;
                    max_orb = aspect_orb cfg aspect_type
                in if orb_diff \<le> max_orb
                      \<and> is_moon_applying_to_aspect moon_pos planet_pos aspect_type moon_speed
                   then
                     (let relative_speed = \<bar>moon_speed - \<bar>speed planet_pos\<bar>\<bar>;
                          time_to_exact =
                            (if relative_speed > 0 then Some (orb_diff / relative_speed) else None)
                      in [\<lparr>la_planet = p, la_aspect = aspect_type, la_orb = orb_diff,
                            degrees_difference = orb_diff, perfection_eta_days = time_to_exact,
                            perfection_eta_description = format_timing_description time_to_exact,
                            la_applying = True\<rparr>])
                   else []))
               all_aspects))) ps)"

definition calculate_moon_next_aspect ::
  "config \<Rightarrow> (Planet \<times> PlanetPosition) list \<Rightarrow> real \<Rightarrow> LunarAspect option option" where
  "calculate_moon_next_aspect cfg ps moon_speed =
     do {
       moon_pos \<leftarrow> map_of ps MOON;
       Some (case moon_applying_aspects cfg moon_pos ps moon_speed of
               [] \<Rightarrow> None
             | x # xs \<Rightarrow> Some (soonest_acc x xs))
     }"

text \<open>\<^verbatim>\<open>_check_moon_next_aspect_to_significators\<close>.\<close>

record moon_next_aspect_result =
  mn_decisive :: bool
  mn_result :: string
  mn_confidence :: int
  mn_reception :: string
  mn_void_moon :: bool

definition check_moon_next_aspect_to_significators ::
  "config \<Rightarrow> HoraryChart \<Rightarrow> Planet \<Rightarrow> Planet \<Rightarrow> bool \<Rightarrow> moon_next_aspect_result option option" where
  "check_moon_next_aspect_to_significators cfg chart querent quesited ignore_void_moon_flag =
     (case moon_next_aspect chart of
        None \<Rightarrow> Some None
      | Some next_aspect \<Rightarrow>
          if la_planet next_aspect \<notin> set [querent, quesited] then Some None
          else do {
            void_of_course \<leftarrow>
              (if \<not> ignore_void_moon_flag
               then map_option (\<lambda>v. void v \<and> \<not> exception v) (is_moon_void_of_course_enhanced cfg chart)
               else Some False);
            let favorable_aspects = [CONJUNCTION, SEXTILE, TRINE];
            let favorable = (la_aspect next_aspect \<in> set favorable_aspects);
            let base0 = (if favorable then 75 else 65);
            let base1 = (if void_of_course then base0 - 15 else base0);
            let base2 = (if la_orb next_aspect \<le> 1 then base1 + 10 else base1);
            let decisive = (\<not> (void_of_course \<and> \<not> favorable));
            reception \<leftarrow> detect_reception_between_planets chart MOON (la_planet next_aspect);
            Some (Some
              (if reception \<noteq> ''none'' \<and> \<not> favorable then
                 \<lparr>mn_decisive = decisive, mn_result = ''UNCLEAR'', mn_confidence = base2 + 10,
                  mn_reception = reception, mn_void_moon = void_of_course\<rparr>
               else
                 \<lparr>mn_decisive = decisive, mn_result = (if favorable then ''YES'' else ''NO''),
                  mn_confidence = base2, mn_reception = reception,
                  mn_void_moon = void_of_course\<rparr>))
          })"

subsection \<open>\<^verbatim>\<open>_apply_enhanced_judgment\<close>\<close>

text \<open>
  Of the returned dict the entries \<^verbatim>\<open>result\<close>, \<^verbatim>\<open>confidence\<close> and the perfection type
  under \<^verbatim>\<open>traditional_factors\<close> are kept; the reasoning lines, the timing text and the
  copy of the solar factors are left out. The model follows the function from its first
  stage to stage 3.6 (the Moon's next aspect). Where the function goes on to the
  same-ruler logic of stage 3.5 or to the stages from 3.7 on (Moon testimony, denial
  conditions, theft and loss, benefic support, pregnancy, fallback), the value says so and
  carries the running confidence.
\<close>

record verdict =
  jd_result :: string
  jd_confidence :: int
  jd_perfection_type :: "string option"

datatype outcome = Judged verdict | Same_ruler_stage int | Later_stages int

record overrides =
  ignore_radicality :: bool
  ignore_void_moon :: bool
  ignore_combustion :: bool
  ignore_saturn_7th :: bool
  exaltation_confidence_boost :: real

text \<open>
  The solar stage: \<^const>\<open>Inl\<close> is the hard denial for two or more severe impediments,
  \<^const>\<open>Inr\<close> the confidence after the bonus or the penalty.
\<close>

definition solar_stage ::
  "config \<Rightarrow> HoraryChart \<Rightarrow> solar_factors \<Rightarrow> Planet \<Rightarrow> Planet \<Rightarrow> bool \<Rightarrow> int
     \<Rightarrow> (verdict + int) option" where
  "solar_stage cfg chart sf querent_planet quesited_planet ignore_combustion_flag conf =
     (if sf_significant sf then
        (if sf_cazimi_count sf > 0 then Some (Inr (conf + cazimi_bonus (cfg_confidence cfg)))
         else if sf_combustion_count sf > 0 \<and> \<not> ignore_combustion_flag then
           (let querent_combusted = (planet_value querent_planet \<in> set (combusted_names sf));
                quesited_combusted = (planet_value quesited_planet \<in> set (combusted_names sf))
            in if querent_combusted \<or> quesited_combusted then
                 do {
                   (severe1, penalty1) \<leftarrow> combustion_impediment chart sf querent_planet;
                   (severe2, penalty2) \<leftarrow> combustion_impediment chart sf quesited_planet;
                   if severe1 + severe2 \<ge> 2 then
                     Some (Inl \<lparr>jd_result = ''NO'', jd_confidence = 90,
                                jd_perfection_type = Some ''impediment_denial''\<rparr>)
                   else Some (Inr (conf - min (penalty1 + penalty2) 50))
                 }
               else Some (Inr conf))
         else Some (Inr conf))
      else Some (Inr conf))"

text \<open>
  The stage after a perfection was found: the result, the confidence limited by that of
  the perfection, the three adjustments and the confidence threshold.
\<close>

definition perfection_stage ::
  "HoraryChart \<Rightarrow> Planet \<Rightarrow> Planet \<Rightarrow> perfection \<Rightarrow> int \<Rightarrow> verdict option" where
  "perfection_stage chart querent_planet quesited_planet p conf =
     do {
       favorable \<leftarrow> pf_favorable p;
       perfection_confidence \<leftarrow> pf_confidence p;
       let result0 = (if favorable then ''YES'' else ''NO'');
       let conf1 = min conf perfection_confidence;
       let conf2 = apply_aspect_direction_adjustment conf1 p;
       conf3 \<leftarrow> apply_dignity_confidence_adjustment conf2 chart querent_planet quesited_planet;
       conf4 \<leftarrow> apply_retrograde_quesited_penalty conf3 chart quesited_planet;
       let (answer, conf5) = fst (apply_confidence_threshold result0 conf4 []);
       Some \<lparr>jd_result = answer, jd_confidence = conf5, jd_perfection_type = pf_type p\<rparr>
     }"

text \<open>Stages 3 to 3.6, entered with the significators and the confidence so far.\<close>

definition judgment_from_perfection ::
  "(real \<Rightarrow> real \<Rightarrow> real option) \<Rightarrow> config \<Rightarrow> HoraryChart \<Rightarrow> question_analysis \<Rightarrow> overrides
     \<Rightarrow> significators \<Rightarrow> int \<Rightarrow> outcome option" where
  "judgment_from_perfection dse cfg chart qa ov sg conf =
     (let querent_planet = sg_querent sg;
          quesited_planet = sg_quesited sg;
          transaction =
            (if sg_transaction_type sg \<and> sg_item_significator sg \<noteq> None
             then check_transaction_translation chart querent_planet quesited_planet
                    (the (sg_item_significator sg))
             else None)
      in case transaction of
           Some t \<Rightarrow>
             do {
               querent_pos \<leftarrow> map_of (planets chart) querent_planet;
               quesited_pos \<leftarrow> map_of (planets chart) quesited_planet;
               item_pos \<leftarrow> map_of (planets chart) (the (sg_item_significator sg));
               Some (Judged \<lparr>jd_result = (if tt_favorable t then ''YES'' else ''NO''),
                              jd_confidence = min conf (tt_confidence t),
                              jd_perfection_type = Some ''transaction_translation''\<rparr>)
             }
         | None \<Rightarrow>
             do {
               let primary_significator =
                 (if sg_third_person_education sg then the (sg_student sg) else querent_planet);
               let secondary_significator = quesited_planet;
               found \<leftarrow> check_enhanced_perfection dse cfg chart primary_significator
                          secondary_significator (exaltation_confidence_boost ov);
               let education =
                 (if \<not> perfects found \<and> qa_question_type qa = Some ''education''
                  then check_moon_sun_education_perfection chart else Education_none);
               (case education of
                  Education_separating a \<Rightarrow> None
                | Education_applying p \<Rightarrow>
                    map_option Judged (perfection_stage chart querent_planet quesited_planet p conf)
                | Education_none \<Rightarrow>
                    if perfects found then
                      map_option Judged
                        (perfection_stage chart querent_planet quesited_planet found conf)
                    else if sg_same_ruler_analysis sg \<noteq> None then Some (Same_ruler_stage conf)
                    else do {
                      moon_next \<leftarrow> check_moon_next_aspect_to_significators cfg chart querent_planet
                                quesited_planet (ignore_void_moon ov);
                      (case moon_next of
                         Some r \<Rightarrow>
                           if mn_decisive r then
                             do {
                               querent_pos \<leftarrow> map_of (planets chart) querent_planet;
                               quesited_pos \<leftarrow> map_of (planets chart) quesited_planet;
                               Some (Judged \<lparr>jd_result = mn_result r,
                                              jd_confidence = mn_confidence r,
                                              jd_perfection_type = Some ''moon_next_aspect''\<rparr>)
                             }
                           else Some (Later_stages conf)
                       | None \<Rightarrow> Some (Later_stages conf))
                    })
             })"

text \<open>Stage 2 and the solar stage, entered with the confidence that stage 1.5 leaves.\<close>

definition judgment_from_significators ::
  "(real \<Rightarrow> real \<Rightarrow> real option) \<Rightarrow> config \<Rightarrow> HoraryChart \<Rightarrow> question_analysis \<Rightarrow> overrides
     \<Rightarrow> int \<Rightarrow> outcome option" where
  "judgment_from_significators dse cfg chart qa ov conf =
     do {
       sigs \<leftarrow> identify_significators chart qa;
       (case sigs of
          Invalid reason \<Rightarrow>
            Some (Judged \<lparr>jd_result = ''CANNOT JUDGE'', jd_confidence = 0,
                           jd_perfection_type = None\<rparr>)
        | Valid sg \<Rightarrow>
            do {
              same_ruler_bonus \<leftarrow>
                (case sg_same_ruler_analysis sg of
                   None \<Rightarrow> Some 0
                 | Some shared_planet \<Rightarrow>
                     map_option
                       (\<lambda>shared_position.
                          if dignity_score shared_position > 0 then 10 + 5
                          else if dignity_score shared_position < - 10 then 10 - 10
                          else 10)
                       (map_of (planets chart) shared_planet));
              let conf1 = conf + same_ruler_bonus;
              let sf = analyze_enhanced_solar_factors chart (sg_querent sg) (sg_quesited sg)
                         (ignore_combustion ov);
              solar \<leftarrow> solar_stage cfg chart sf (sg_querent sg) (sg_quesited sg)
                         (ignore_combustion ov) conf1;
              (case solar of
                 Inl denial \<Rightarrow> Some (Judged denial)
               | Inr conf2 \<Rightarrow> judgment_from_perfection dse cfg chart qa ov sg conf2)
            })
     }"

definition apply_enhanced_judgment ::
  "(real \<Rightarrow> real \<Rightarrow> real option) \<Rightarrow> config \<Rightarrow> HoraryChart \<Rightarrow> question_analysis \<Rightarrow> overrides
     \<Rightarrow> outcome option" where
  "apply_enhanced_judgment dse cfg chart qa ov =
     do {
       radical \<leftarrow>
         (if \<not> ignore_radicality ov
          then map_option fst (check_enhanced_radicality cfg chart (ignore_saturn_7th ov))
          else Some True);
       if \<not> radical then
         Some (Judged \<lparr>jd_result = ''NOT RADICAL'', jd_confidence = 0,
                        jd_perfection_type = None\<rparr>)
       else if \<not> ignore_void_moon ov then
         do {
           void_check \<leftarrow> is_moon_void_of_course_enhanced cfg chart;
           if void void_check \<and> \<not> exception void_check then
             do {
               can_override \<leftarrow> check_void_moon_overrides chart qa;
               if can_override then
                 judgment_from_significators dse cfg chart qa ov
                   (min (base_confidence (cfg_confidence cfg)) 30)
               else
                 Some (Judged \<lparr>jd_result = ''NO'', jd_confidence = 85,
                                jd_perfection_type = Some ''void_moon_denial''\<rparr>)
             }
           else judgment_from_significators dse cfg chart qa ov
                  (base_confidence (cfg_confidence cfg))
         }
       else judgment_from_significators dse cfg chart qa ov
              (base_confidence (cfg_confidence cfg))
     }"

section \<open>Example inputs\<close>

text \<open>
  A configuration for the closed examples. The moieties are those of the engine's own
  table in \<^verbatim>\<open>_get_planet_moiety\<close>; the other values are ordinary settings of the
  documented options (void rule \<open>by_sign\<close>, exceptions for Cancer, Sagittarius and
  Taurus). Each example states the settings it depends on.
\<close>

definition example_config :: config where
  "example_config =
     \<lparr>cfg_timing = \<lparr>stationary_speed_threshold = 1 / 100, timing_precision_days = 1 / 10,
                     max_future_days = 365\<rparr>,
      cfg_orbs = \<lparr>moieties = Some [(''Sun'', 17), (''Moon'', 25 / 2), (''Mercury'', 7),
                     (''Venus'', 8), (''Mars'', 15 / 2), (''Jupiter'', 9), (''Saturn'', 19 / 2)],
                   orbs_dict = [(''conjunction'', 8), (''sextile'', 6), (''square'', 8),
                     (''trine'', 8), (''opposition'', 8)],
                   sun_orb_bonus = 2, moon_orb_bonus = 1, void_orb_deg = 1 / 2\<rparr>,
      cfg_moon = \<lparr>void_rule = ''by_sign'',
                   cfg_void_exceptions = \<lparr>cancer = True, sagittarius = True, taurus = True\<rparr>,
                   cfg_translation = \<lparr>require_speed_advantage = True,
                                        require_proper_sequence = True\<rparr>\<rparr>,
      cfg_radicality = \<lparr>asc_too_early = 3, asc_too_late = 27, saturn_7th_enabled = True,
                         via_combusta_enabled = True,
                         cfg_via_combusta = \<lparr>libra_start = 15, scorpio_end = 15\<rparr>\<rparr>,
      cfg_confidence = \<lparr>base_confidence = 50, cazimi_bonus = 15,
                         cfg_perfection = \<lparr>direct_with_mutual_rulership = 100,
                           direct_with_mutual_exaltation = 85, direct_basic = 80,
                           translation_of_light = 75, collection_of_light = 70,
                           reception_only = 70\<rparr>,
                         cfg_denial = \<lparr>prohibition = 70, frustration_retrograde = 70\<rparr>\<rparr>,
      retrograde_automatic_denial = False\<rparr>"

definition position :: "Planet \<Rightarrow> real \<Rightarrow> real \<Rightarrow> Sign \<Rightarrow> int \<Rightarrow> int \<Rightarrow> PlanetPosition" where
  "position p lon spd sg h dig =
     \<lparr>planet = p, longitude = lon, latitude = 0, house = h, sign = sg, dignity_score = dig,
      retrograde = (spd < 0), speed = spd\<rparr>"

text \<open>
  A chart around a dict of planets: the aspects are those the Aspect Engine computes for
  them, the houses are the twelve equal houses that \<^verbatim>\<open>calculate_chart\<close> falls back to.
\<close>

definition chart_of_planets :: "config \<Rightarrow> (Planet \<times> PlanetPosition) list \<Rightarrow> HoraryChart" where
  "chart_of_planets cfg ps =
     \<lparr>planets = ps,
      aspects = calculate_enhanced_aspects days_to_sign_exit cfg ps 0,
      houses = [0, 30, 60, 90, 120, 150, 180, 210, 240, 270, 300, 330],
      house_rulers = [(1, MARS), (2, VENUS), (3, MERCURY), (4, MOON), (5, SUN), (6, MERCURY),
                      (7, VENUS), (8, MARS), (9, JUPITER), (10, SATURN), (11, SATURN), (12, JUPITER)],
      ascendant = 0, midheaven = 90, solar_analyses = [], julian_day = 0,
      moon_last_aspect = None, moon_next_aspect = None\<rparr>"



text \<open>
  Mercury retrograde exactly on the boundary of Gemini (longitude 60), Saturn direct at
  28 Pisces: 62 degrees apart and closing at 1.1 degrees a day.
\<close>

definition mercury_at_boundary :: PlanetPosition where
  "mercury_at_boundary = position MERCURY 60 (- 1) GEMINI 1 0"

definition saturn_late_pisces :: PlanetPosition where
  "saturn_late_pisces = position SATURN 358 (1 / 10) PISCES 11 0"

text \<open>
  A chart whose Moon is the zero position that \<^verbatim>\<open>calculate_chart\<close> stores when the
  ephemeris fails for a body (longitude 0, speed 0), with no other planet within half a
  degree of an aspect to it; and the example configuration with the void rule
  \<open>by_orb\<close>.
\<close>

definition stationary_moon_planets :: "(Planet \<times> PlanetPosition) list" where
  "stationary_moon_planets =
     [(SUN, position SUN 15 1 ARIES 1 0),
      (MOON, position MOON 0 0 ARIES 1 0),
      (MERCURY, position MERCURY 30 1 TAURUS 2 0),
      (VENUS, position VENUS 45 1 TAURUS 2 0),
      (MARS, position MARS 75 (1 / 2) GEMINI 3 0),
      (JUPITER, position JUPITER 105 (1 / 10) CANCER 4 0),
      (SATURN, position SATURN 135 (1 / 20) LEO 5 0)]"

definition by_orb_config :: config where
  "by_orb_config = example_config\<lparr>cfg_moon := (cfg_moon example_config)\<lparr>void_rule := ''by_orb''\<rparr>\<rparr>"

text \<open>The moment at which the question of the month test is asked.\<close>

definition june_15_2024 :: datetime where
  "june_15_2024 = \<lparr>dt_year = 2024, dt_month = 6, dt_day = 15, dt_hour = 0, dt_minute = 0,
                    dt_second = 0, dt_microsecond = 0\<rparr>"

text \<open>
  A chart in which the Moon (13 Gemini, 13 degrees a day) separates from a square to Mars
  (10 Pisces) and applies to a trine to Venus (18 Libra); Mars and Venus make no aspect.
\<close>

definition translation_planets :: "(Planet \<times> PlanetPosition) list" where
  "translation_planets =
     [(SUN, position SUN 215 1 SCORPIO 8 0),
      (MOON, position MOON 73 13 GEMINI 3 0),
      (MERCURY, position MERCURY 227 (3 / 2) SCORPIO 8 0),
      (VENUS, position VENUS 198 (6 / 5) LIBRA 7 0),
      (MARS, position MARS 340 (1 / 2) PISCES 12 0),
      (JUPITER, position JUPITER 43 (1 / 10) TAURUS 2 0),
      (SATURN, position SATURN 285 (1 / 20) CAPRICORN 10 0)]"

definition translation_chart :: HoraryChart where
  "translation_chart = chart_of_planets example_config translation_planets"

text \<open>
  A chart in which Mercury (9 30' Taurus, 1.5 degrees a day) applies to a conjunction
  with the Sun (10 Taurus) half a degree away; its solar analysis is combustion.
\<close>

definition combustion_planets :: "(Planet \<times> PlanetPosition) list" where
  "combustion_planets =
     [(SUN, position SUN 40 1 TAURUS 2 0),
      (MOON, position MOON 203 13 LIBRA 7 0),
      (MERCURY, position MERCURY (79 / 2) (3 / 2) TAURUS 2 0),
      (VENUS, position VENUS 62 (6 / 5) GEMINI 3 0),
      (MARS, position MARS 103 (1 / 2) CANCER 4 0),
      (JUPITER, position JUPITER 252 (1 / 10) SAGITTARIUS 9 0),
      (SATURN, position SATURN 313 (1 / 20) AQUARIUS 11 0)]"

definition solar_analysis :: "Planet \<Rightarrow> real \<Rightarrow> SolarCondition \<Rightarrow> SolarAnalysis" where
  "solar_analysis p d c =
     \<lparr>sa_planet = p, distance_from_sun = d, condition = c, exact_cazimi = False,
      traditional_exception = False\<rparr>"

definition combustion_chart :: HoraryChart where
  "combustion_chart =
     (chart_of_planets example_config combustion_planets)
       \<lparr>solar_analyses :=
          [(SUN, solar_analysis SUN 0 FREE), (MOON, solar_analysis MOON 163 FREE),
           (MERCURY, solar_analysis MERCURY (1 / 2) COMBUSTION),
           (VENUS, solar_analysis VENUS 22 FREE), (MARS, solar_analysis MARS 63 FREE),
           (JUPITER, solar_analysis JUPITER 148 FREE),
           (SATURN, solar_analysis SATURN 87 FREE)]\<rparr>"

text \<open>
  A chart with the ascendant \<open>asc\<close> and twelve equal houses from it: as in
  \<^verbatim>\<open>calculate_chart\<close>, the house rulers are the rulers of the signs on the cusps, every
  position gets the house its longitude falls in, the aspects are those of the Aspect
  Engine and \<^verbatim>\<open>moon_next_aspect\<close> is computed with the speed of the Moon's position.
  \<^verbatim>\<open>moon_last_aspect\<close>, which no function modelled here reads, is left empty.
\<close>

definition chart_at ::
  "config \<Rightarrow> real \<Rightarrow> (Planet \<times> PlanetPosition) list \<Rightarrow> (Planet \<times> SolarAnalysis) list
     \<Rightarrow> HoraryChart" where
  "chart_at cfg asc ps sa =
     (let hs = map (\<lambda>i. pymod (asc + 30 * real i) 360) [0..<12];
          placed = map (\<lambda>(p, pos).
                     (p, pos\<lparr>house := (case calculate_house_position (longitude pos) hs of
                                           Some h \<Rightarrow> h | None \<Rightarrow> house pos)\<rparr>)) ps;
          moon_speed = (case map_of ps MOON of Some m \<Rightarrow> \<bar>speed m\<bar> | None \<Rightarrow> 0)
      in \<lparr>planets = placed,
          aspects = calculate_enhanced_aspects days_to_sign_exit cfg placed 0,
          houses = hs,
          house_rulers = map (\<lambda>i. (int i + 1, ruler (get_sign (hs ! i)))) [0..<12],
          ascendant = asc, midheaven = pymod (asc + 270) 360, solar_analyses = sa,
          julian_day = 0, moon_last_aspect = None,
          moon_next_aspect =
            (case calculate_moon_next_aspect cfg placed moon_speed of
               Some r \<Rightarrow> r | None \<Rightarrow> None)\<rparr>)"

text \<open>
  A chart with 10 Aries rising in which the Moon (10 Gemini) applies to a trine of Venus
  (13 Libra, ruler of the 7th) and to a square of Mars (15 Virgo, ruler of the 1st) and is more than half a degree from every exact aspect; no planet is near the Sun.
\<close>

definition void_moon_planets :: "(Planet \<times> PlanetPosition) list" where
  "void_moon_planets =
     [(SUN, position SUN 220 1 SCORPIO 8 0),
      (MOON, position MOON 70 13 GEMINI 3 0),
      (MERCURY, position MERCURY 235 1 SCORPIO 8 0),
      (VENUS, position VENUS 193 (6 / 5) LIBRA 7 0),
      (MARS, position MARS 165 (1 / 2) VIRGO 6 0),
      (JUPITER, position JUPITER 320 (1 / 10) AQUARIUS 11 0),
      (SATURN, position SATURN 350 (1 / 20) PISCES 12 0)]"

definition void_moon_chart :: HoraryChart where
  "void_moon_chart =
     chart_at by_orb_config 10 void_moon_planets
       [(SUN, solar_analysis SUN 0 FREE), (MOON, solar_analysis MOON 150 FREE),
        (MERCURY, solar_analysis MERCURY 15 FREE), (VENUS, solar_analysis VENUS 27 FREE),
        (MARS, solar_analysis MARS 55 FREE), (JUPITER, solar_analysis JUPITER 100 FREE),
        (SATURN, solar_analysis SATURN 130 FREE)]"

text \<open>A question about the matter of the 7th house, and the judgment without overrides.\<close>

definition seventh_house_question :: question_analysis where
  "seventh_house_question =
     \<lparr>qa_question_type = Some ''relationship'',
      qa_significators =
        \<lparr>si_transaction_type = False, si_quesited_house = Some 7,
         si_special_significators = [], si_third_person_education = False,
         si_student_house = None, si_success_house = None\<rparr>\<rparr>"

definition no_overrides :: overrides where
  "no_overrides =
     \<lparr>ignore_radicality = False, ignore_void_moon = False, ignore_combustion = False,
      ignore_saturn_7th = False, exaltation_confidence_boost = 15\<rparr>"

section \<open>Theorems\<close>

subsection \<open>Confidence threshold\<close>

text \<open>
  C5. For every verdict string and integer confidence: a YES with confidence below 30
  becomes NO with confidence \<open>max confidence 20\<close>; a YES with confidence from 30 to 49
  becomes INCONCLUSIVE with the confidence unchanged; every other pair is returned
  unchanged.
\<close>

theorem confidence_threshold_cases:
  "(result = ''YES'' \<and> confidence < 30 \<longrightarrow>
      fst (apply_confidence_threshold result confidence reasoning) = (''NO'', max confidence 20))
   \<and> (result = ''YES'' \<and> 30 \<le> confidence \<and> confidence \<le> 49 \<longrightarrow>
      fst (apply_confidence_threshold result confidence reasoning) = (''INCONCLUSIVE'', confidence))
   \<and> (\<not> (result = ''YES'' \<and> confidence \<le> 49) \<longrightarrow>
      fst (apply_confidence_threshold result confidence reasoning) = (result, confidence))"
  by (simp add: apply_confidence_threshold_def)

theorem confidence_threshold_cases_witness:
  "fst (apply_confidence_threshold ''YES'' 12 []) = (''NO'', 20)
   \<and> fst (apply_confidence_threshold ''YES'' 29 []) = (''NO'', 29)
   \<and> fst (apply_confidence_threshold ''YES'' 30 []) = (''INCONCLUSIVE'', 30)
   \<and> fst (apply_confidence_threshold ''YES'' 49 []) = (''INCONCLUSIVE'', 49)
   \<and> fst (apply_confidence_threshold ''YES'' 50 []) = (''YES'', 50)
   \<and> fst (apply_confidence_threshold ''NO'' 10 []) = (''NO'', 10)"
  using confidence_threshold_cases [of "''YES''" 12 "[]"]
    confidence_threshold_cases [of "''YES''" 29 "[]"]
    confidence_threshold_cases [of "''YES''" 30 "[]"]
    confidence_threshold_cases [of "''YES''" 49 "[]"]
    confidence_threshold_cases [of "''YES''" 50 "[]"]
    confidence_threshold_cases [of "''NO''" 10 "[]"]
  by simp

subsection \<open>Triplicity rulers\<close>

text \<open>
  C10. The claim is that for every sign and both sects the dignity scorer and the
  Reception Calculator use the same triplicity ruler. The two tables differ on the water
  signs: for Cancer by day the Reception Calculator has Mars and the dignity scorer has
  Venus, so Mars in Cancer in a day chart is received by triplicity and scores no
  triplicity dignity, and Venus the reverse.
\<close>

theorem triplicity_tables_differ_on_cancer:
  "reception_triplicity_ruler CANCER ''day'' = Some MARS
   \<and> dignity_triplicity_ruler CANCER ''day'' = Some VENUS
   \<and> has_triplicity_dignity MARS CANCER True
   \<and> calculate_triplicity_dignity 3 MARS CANCER
        \<lparr>planet = SUN, longitude = 100, latitude = 0, house = 10, sign = CANCER,
         dignity_score = 0, retrograde = False, speed = 1\<rparr> = 0
   \<and> \<not> has_triplicity_dignity VENUS CANCER True
   \<and> calculate_triplicity_dignity 3 VENUS CANCER
        \<lparr>planet = SUN, longitude = 100, latitude = 0, house = 10, sign = CANCER,
         dignity_score = 0, retrograde = False, speed = 1\<rparr> = 3"
  by (simp add: reception_triplicity_ruler_def dignity_triplicity_ruler_def
      has_triplicity_dignity_def calculate_triplicity_dignity_def
      reception_triplicity_rulers_def dignity_triplicity_rulers_def)

subsection \<open>Aspect Engine: one aspect per pair\<close>


















subsection \<open>Aspect Engine: applying aspects\<close>

text \<open>
  What \<^verbatim>\<open>_is_applying_enhanced\<close> guarantees for every \<open>dse\<close>: the orb after the time
  increment is strictly smaller, and perfection comes no later than the sign exit of a
  body whose exit time is reported and is not zero.
\<close>

lemma applying_orb_shrinks:
  "is_applying_enhanced dse cfg pos1 pos2 a jd \<Longrightarrow> future_orb cfg pos1 pos2 a < current_orb pos1 pos2 a"
  by (auto simp: is_applying_enhanced_def Let_def split: prod.splits if_splits)

lemma applying_perfects_before_exit:
  assumes "is_applying_enhanced dse cfg pos1 pos2 a jd"
    and "body = fst (faster_slower pos1 pos2) \<or> body = snd (faster_slower pos1 pos2)"
    and "dse (longitude body) (speed body) = Some d" and "d \<noteq> 0"
  shows "\<exists>t. days_to_perfect pos1 pos2 a = Some t \<and> t \<le> d"
  using assms
  by (auto simp: is_applying_enhanced_def Let_def truthy_def exceeds_def
      split: prod.splits if_splits option.splits)

lemma boundary_faster_slower:
  "faster_slower mercury_at_boundary saturn_late_pisces = (mercury_at_boundary, saturn_late_pisces)"
  by (simp add: faster_slower_def mercury_at_boundary_def saturn_late_pisces_def position_def)

lemma boundary_separation: "current_separation mercury_at_boundary saturn_late_pisces = 62"
  by (simp add: current_separation_def boundary_faster_slower)
     (simp add: normalize_separation_def mercury_at_boundary_def saturn_late_pisces_def position_def)

lemma closest_target_62: "closest_target 62 SEXTILE = 60"
  by (simp add: closest_target_def aspect_targets_def)

lemma boundary_current_orb: "current_orb mercury_at_boundary saturn_late_pisces SEXTILE = 2"
  by (simp add: current_orb_def boundary_separation closest_target_62)

lemma boundary_days_to_perfect:
  "days_to_perfect mercury_at_boundary saturn_late_pisces SEXTILE = Some (20 / 11)"
  by (simp add: days_to_perfect_def boundary_faster_slower boundary_current_orb)
     (simp add: mercury_at_boundary_def saturn_late_pisces_def position_def)

lemma boundary_future_orb:
  "future_orb example_config mercury_at_boundary saturn_late_pisces SEXTILE = 189 / 100"
  by (simp add: future_orb_def boundary_faster_slower boundary_separation closest_target_62)
     (simp add: normalize_separation_def mercury_at_boundary_def saturn_late_pisces_def position_def
        example_config_def)

lemma boundary_exit_mercury:
  "days_to_sign_exit (longitude mercury_at_boundary) (speed mercury_at_boundary) = Some 0"
  by (simp add: days_to_sign_exit_def pymod_def mercury_at_boundary_def position_def)

lemma boundary_exit_saturn:
  "days_to_sign_exit (longitude saturn_late_pisces) (speed saturn_late_pisces) = Some 20"
  by (simp add: days_to_sign_exit_def pymod_def saturn_late_pisces_def position_def)

text \<open>
  C8. The claim is that every aspect marked applying perfects no later than either body
  leaves its sign. The guard \<^verbatim>\<open>if faster_days_to_exit and ...\<close> is also false when the exit
  time is 0.0: a retrograde Mercury exactly on the boundary of its sign leaves it at once,
  the sextile to Saturn perfects after 20/11 days, and the aspect is marked applying.
\<close>

theorem applying_although_sign_exit_comes_first:
  "is_applying_enhanced days_to_sign_exit example_config mercury_at_boundary saturn_late_pisces SEXTILE 0
   \<and> days_to_sign_exit (longitude mercury_at_boundary) (speed mercury_at_boundary) = Some 0
   \<and> days_to_perfect mercury_at_boundary saturn_late_pisces SEXTILE = Some (20 / 11)"
  by (simp add: is_applying_enhanced_def boundary_faster_slower boundary_exit_mercury
      boundary_exit_saturn boundary_days_to_perfect boundary_future_orb boundary_current_orb
      truthy_def exceeds_def)

subsection \<open>Void of course\<close>

lemma stationary_moon_not_void_by_sign:
  assumes "map_of (planets chart) MOON = Some moon_pos"
    and "\<bar>speed moon_pos\<bar> < stationary_speed_threshold (cfg_timing cfg)"
  shows "\<exists>r. void_by_sign_method cfg chart = Some r \<and> \<not> void r"
  using assms by (simp add: void_by_sign_method_def)

lemma stationary_moon_not_void_lilly:
  assumes "map_of (planets chart) MOON = Some moon_pos"
    and "\<bar>speed moon_pos\<bar> < stationary_speed_threshold (cfg_timing cfg)"
  shows "\<exists>r. void_lilly_method cfg chart = Some r \<and> \<not> void r"
  using assms by (simp add: void_lilly_method_def void_by_sign_method_def Let_def)

lemma stationary_moon_not_void_unless_by_orb:
  assumes "map_of (planets chart) MOON = Some moon_pos"
    and "\<bar>speed moon_pos\<bar> < stationary_speed_threshold (cfg_timing cfg)"
    and "void_rule (cfg_moon cfg) \<noteq> ''by_orb''"
  shows "\<exists>r. is_moon_void_of_course_enhanced cfg chart = Some r \<and> \<not> void r"
  using assms stationary_moon_not_void_by_sign [OF assms(1,2)]
    stationary_moon_not_void_lilly [OF assms(1,2)]
  by (simp add: is_moon_void_of_course_enhanced_def Let_def)

lemma stationary_moon_lookup:
  "map_of stationary_moon_planets MOON = Some (position MOON 0 0 ARIES 1 0)"
  by (simp add: stationary_moon_planets_def)

lemma stationary_moon_no_aspect_within_orb:
  "first_aspect_within_void_orb (1 / 2) (position MOON 0 0 ARIES 1 0) stationary_moon_planets = None"
  by (simp add: stationary_moon_planets_def position_def angular_separation_def all_aspects_def)

lemma stationary_moon_void_by_orb:
  "void_by_orb_method by_orb_config (chart_of_planets by_orb_config stationary_moon_planets)
    = Some \<lparr>void = True, exception = False,
             void_reason = [S ''Moon not within '', R (1 / 2), S '' of any aspect''],
             degrees_left_in_sign = None\<rparr>"
proof -
  have orb: "void_orb_deg (cfg_orbs by_orb_config) = 1 / 2"
    by (simp add: by_orb_config_def example_config_def)
  show ?thesis
    by (simp add: void_by_orb_method_def chart_of_planets_def stationary_moon_lookup orb
        stationary_moon_no_aspect_within_orb)
qed

text \<open>
  C9. The claim is that under every void rule a Moon slower than the stationary threshold
  is reported as not void. \<^verbatim>\<open>_void_by_sign_method\<close> (and with it the \<open>lilly\<close> rule) returns
  not void for such a Moon; \<^verbatim>\<open>_void_by_orb_method\<close> has no such test: under the rule
  \<open>by_orb\<close> a Moon of speed 0 with no aspect within the void orb is reported void.
\<close>

theorem stationary_moon_void_under_by_orb:
  "map_option void (is_moon_void_of_course_enhanced by_orb_config
              (chart_of_planets by_orb_config stationary_moon_planets)) = Some True
   \<and> map_option speed (map_of stationary_moon_planets MOON) = Some 0
   \<and> stationary_speed_threshold (cfg_timing by_orb_config) = 1 / 100
   \<and> void_rule (cfg_moon by_orb_config) = ''by_orb''"
proof -
  have rule: "void_rule (cfg_moon by_orb_config) = ''by_orb''"
    by (simp add: by_orb_config_def)
  have thr: "stationary_speed_threshold (cfg_timing by_orb_config) = 1 / 100"
    by (simp add: by_orb_config_def example_config_def)
  have "is_moon_void_of_course_enhanced by_orb_config
          (chart_of_planets by_orb_config stationary_moon_planets)
        = void_by_orb_method by_orb_config (chart_of_planets by_orb_config stationary_moon_planets)"
    by (simp add: is_moon_void_of_course_enhanced_def rule)
       (simp add: chart_of_planets_def stationary_moon_lookup)
  then show ?thesis
    by (simp add: stationary_moon_void_by_orb stationary_moon_lookup thr rule) (simp add: position_def)
qed

subsection \<open>Question Analyzer: third person\<close>

lemma third_person_when_pattern_present:
  assumes "list_ex (\<lambda>pattern. contains question pattern) third_person_patterns"
  shows "is_third_person (detect_third_person_question question)
     \<and> subject_house (detect_third_person_question question) = Some 7"
proof -
  from assms obtain pattern where
    "find (\<lambda>pattern. contains question pattern) third_person_patterns = Some pattern"
    by (cases "find (\<lambda>pattern. contains question pattern) third_person_patterns")
       (auto simp: find_None_iff list_ex_iff)
  then show ?thesis by (simp add: detect_third_person_question_def)
qed

lemma lower_is_she_pregnant: "lower ''Is she pregnant?'' = ''is she pregnant?''"
  by (simp add: lower_def lower_char_def)

lemma lower_will_she_marry_me: "lower ''Will she marry me?'' = ''will she marry me?''"
  by (simp add: lower_def lower_char_def)

lemma will_she_marry_me_third_person:
  "analyze_question_third_person ''Will she marry me?''
   = \<lparr>is_third_person = True, subject_house = Some 7, turn_houses = Some True,
       pattern_matched = Some ''will she'', educational_context = None\<rparr>"
  by (simp add: analyze_question_third_person_def lower_will_she_marry_me
      detect_third_person_question_def third_person_patterns_def strip_def)

text \<open>
  C4. The claim is that every question containing one of the pronouns he, she, they, his,
  her, their is analysed as third person with subject house 7, ``Is she pregnant?'' in
  particular. The list \<^verbatim>\<open>third_person_patterns\<close> has the subject pronouns only after
  will, did, has, does, can and should, so ``Is she pregnant?'' matches no pattern and
  the analysis is \<^verbatim>\<open>{"is_third_person": False}\<close>.
\<close>

theorem is_she_pregnant_not_third_person:
  "analyze_question_third_person ''Is she pregnant?''
   = \<lparr>is_third_person = False, subject_house = None, turn_houses = None,
       pattern_matched = None, educational_context = None\<rparr>"
  by (simp add: analyze_question_third_person_def lower_is_she_pregnant
      detect_third_person_question_def third_person_patterns_def)

subsection \<open>Question Analyzer: timeframe\<close>

lemma timeframe_type_of_pattern_table:
  assumes "parse_question_timeframe now question = Some r" and "has_timeframe r"
  shows "\<exists>t. timeframe_type r = Some t
     \<and> t \<in> set [''this_month'', ''next_month'', ''this_year'', ''this_week'', ''today'', ''soon'',
                  ''by_date'']"
proof -
  have sub: "set (detected_timeframes question) \<subseteq> set (map fst timeframe_patterns)"
    by (auto simp: detected_timeframes_def)
  from assms have ne: "detected_timeframes question \<noteq> []"
    by (auto simp: parse_question_timeframe_def Let_def split: if_splits)
  with assms have "timeframe_type r = Some (hd (detected_timeframes question))"
    by (auto simp: parse_question_timeframe_def Let_def split: if_splits Option.bind_splits)
  moreover from ne sub have "hd (detected_timeframes question) \<in> set (map fst timeframe_patterns)"
    using hd_in_set by blast
  ultimately show ?thesis by (simp add: timeframe_patterns_def)
qed

lemma lower_job_in_september:
  "lower ''Will I get a job in September?'' = ''will i get a job in september?''"
  by (simp add: lower_def lower_char_def)

lemma lower_job_in_september_again:
  "lower ''will i get a job in september?'' = ''will i get a job in september?''"
  by (simp add: lower_def lower_char_def)

lemma job_in_september_detected: "detected_timeframes ''will i get a job in september?'' = []"
  by (simp add: detected_timeframes_def timeframe_patterns_def lower_job_in_september_again
      word_number_at_def is_word_char_def is_digit_def)

text \<open>
  C3. The claim is that the timeframe parser returns one of today, this_week, this_month,
  next_month, this_year, specific_month, soon, and for ``Will I get a job in September?''
  asked on 2024-06-15 the type specific_month with end date 2024-09-30. The pattern table
  of \<^verbatim>\<open>_parse_question_timeframe\<close> has no month names (and has \<open>by_date\<close>): the question
  matches no pattern and the result is \<^verbatim>\<open>{"has_timeframe": False, "type": None,
  "end_date": None}\<close>.
\<close>

theorem job_in_september_has_no_timeframe:
  "analyze_question_timeframe june_15_2024 ''Will I get a job in September?''
   = Some \<lparr>has_timeframe = False, timeframe_type = None, end_date = None, patterns_matched = None\<rparr>"
  by (simp add: analyze_question_timeframe_def lower_job_in_september
      parse_question_timeframe_def job_in_september_detected)

subsection \<open>Translation of light\<close>

text \<open>
  Whatever the aspects of the translator are, a translation that is found is marked
  favorable and carries the confidence 65, or 75 with reception: the hard-aspect test
  compares a member of \<^verbatim>\<open>Aspect\<close> with strings, and the combustion test asks a position
  for an attribute it does not have.
\<close>

lemma py_in_member_strings: "\<not> py_in (Member a) [Str s, Str t]"
  by (simp add: py_in_def)

lemma no_solar_condition: "\<not> hasattr_position pos ''solar_condition''"
  by (simp add: hasattr_position_def planet_position_fields_def)

lemma translation_found_favorable:
  assumes "translation_found chart querent quesited p pos qa sa sequence note = Some t"
  shows "tl_favorable t \<and> (tl_confidence t = 65 \<or> tl_confidence t = 75)
         \<and> tl_combustion_penalty t = 0"
  using assms
  by (auto simp: translation_found_def py_in_member_strings no_solar_condition Let_def
      split: bind_splits if_splits)

lemma translation_candidate_favorable:
  assumes "translation_candidate cfg chart querent quesited p pos = Some (Some t)"
  shows "tl_favorable t \<and> (tl_confidence t = 65 \<or> tl_confidence t = 75)
         \<and> tl_combustion_penalty t = 0"
  using assms
  by (auto simp: translation_candidate_def
      split: bind_splits if_splits option.splits prod.splits
      dest: translation_found_favorable)

lemma translation_loop_favorable:
  assumes "translation_loop cfg chart querent quesited ps = Some (Some t)"
  shows "tl_favorable t \<and> (tl_confidence t = 65 \<or> tl_confidence t = 75)
         \<and> tl_combustion_penalty t = 0"
  using assms
proof (induction ps)
  case Nil
  then show ?case by simp
next
  case (Cons pp ps)
  obtain p pos where pp: "pp = (p, pos)" by (cases pp)
  show ?case
  proof (cases "p \<in> set [querent, quesited]")
    case True
    with Cons pp show ?thesis by simp
  next
    case False
    show ?thesis
    proof (cases "translation_candidate cfg chart querent quesited p pos")
      case None
      with Cons.prems pp False show ?thesis by simp
    next
      case (Some r)
      show ?thesis
      proof (cases r)
        case None
        with Cons pp False Some show ?thesis by simp
      next
        case (Some t')
        with Cons.prems pp False \<open>translation_candidate cfg chart querent quesited p pos = Some r\<close>
        have "t' = t" by simp
        with Some \<open>translation_candidate cfg chart querent quesited p pos = Some r\<close>
        show ?thesis by (auto dest: translation_candidate_favorable)
      qed
    qed
  qed
qed

lemma translation_of_light_always_favorable:
  assumes "check_enhanced_translation_of_light cfg chart querent quesited = Some (Some t)"
  shows "tl_favorable t \<and> (tl_confidence t = 65 \<or> tl_confidence t = 75)
         \<and> tl_combustion_penalty t = 0"
  using assms unfolding check_enhanced_translation_of_light_def
  by (rule translation_loop_favorable)

lemma translation_chart_aspects:
  "aspects translation_chart =
     [\<lparr>planet1 = SUN, planet2 = MOON, aspect = TRINE, orb = 22,
        applying = False, exact_time = None, degrees_to_exact = 22\<rparr>,
      \<lparr>planet1 = SUN, planet2 = MERCURY, aspect = CONJUNCTION, orb = 12,
        applying = False, exact_time = None, degrees_to_exact = 12\<rparr>,
      \<lparr>planet1 = SUN, planet2 = VENUS, aspect = CONJUNCTION, orb = 17,
        applying = False, exact_time = None, degrees_to_exact = 17\<rparr>,
      \<lparr>planet1 = SUN, planet2 = MARS, aspect = TRINE, orb = 5,
        applying = True, exact_time = None, degrees_to_exact = 5\<rparr>,
      \<lparr>planet1 = SUN, planet2 = JUPITER, aspect = OPPOSITION, orb = 8,
        applying = True, exact_time = None, degrees_to_exact = 8\<rparr>,
      \<lparr>planet1 = SUN, planet2 = SATURN, aspect = SEXTILE, orb = 10,
        applying = True, exact_time = None, degrees_to_exact = 10\<rparr>,
      \<lparr>planet1 = MOON, planet2 = VENUS, aspect = TRINE, orb = 5,
        applying = True, exact_time = None, degrees_to_exact = 5\<rparr>,
      \<lparr>planet1 = MOON, planet2 = MARS, aspect = SQUARE, orb = 3,
        applying = False, exact_time = None, degrees_to_exact = 3\<rparr>,
      \<lparr>planet1 = MERCURY, planet2 = MARS, aspect = TRINE, orb = 7,
        applying = False, exact_time = None, degrees_to_exact = 7\<rparr>,
      \<lparr>planet1 = MERCURY, planet2 = JUPITER, aspect = OPPOSITION, orb = 4,
        applying = False, exact_time = None, degrees_to_exact = 4\<rparr>,
      \<lparr>planet1 = MERCURY, planet2 = SATURN, aspect = SEXTILE, orb = 2,
        applying = False, exact_time = None, degrees_to_exact = 2\<rparr>,
      \<lparr>planet1 = VENUS, planet2 = SATURN, aspect = SQUARE, orb = 3,
        applying = False, exact_time = None, degrees_to_exact = 3\<rparr>,
      \<lparr>planet1 = MARS, planet2 = JUPITER, aspect = SEXTILE, orb = 3,
        applying = True, exact_time = None, degrees_to_exact = 3\<rparr>,
      \<lparr>planet1 = MARS, planet2 = SATURN, aspect = SEXTILE, orb = 5,
        applying = True, exact_time = None, degrees_to_exact = 5\<rparr>,
      \<lparr>planet1 = JUPITER, planet2 = SATURN, aspect = TRINE, orb = 2,
        applying = True, exact_time = None, degrees_to_exact = 2\<rparr>]"
  by code_simp

text \<open>
  C6. The claim is that a translation whose translator aspects a significator by square or
  opposition is marked unfavorable and has its confidence reduced. In the chart below the
  Moon translates from Mars, which it aspects by a separating square, to Venus: the
  translation is returned favorable, with the confidence 65 of a translation without
  reception and without the reduction by 5, and the Perfection Detector reports a
  favorable perfection by translation.
\<close>

theorem hard_aspect_translation_marked_favorable:
  "check_enhanced_translation_of_light example_config translation_chart MARS VENUS
     = Some (Some \<lparr>tl_translator = MOON, tl_favorable = True, tl_confidence = 65,
          tl_sequence = ''Separates from Mars, applies to Venus (immediate sequence)'',
          tl_reception = ''none'', tl_combustion_penalty = 0\<rparr>)
   \<and> map (\<lambda>a. (planet2 a, aspect a, applying a))
        (filter (\<lambda>a. planet1 a = MOON) (aspects translation_chart))
     = [(VENUS, TRINE, True), (MARS, SQUARE, False)]
   \<and> map_option (\<lambda>r. (perfects r, pf_type r, pf_favorable r, pf_confidence r, pf_translator r))
        (check_enhanced_perfection days_to_sign_exit example_config translation_chart MARS VENUS 15)
     = Some (True, Some ''translation'', Some True, Some 75, Some MOON)"
  by code_simp

subsection \<open>Perfection Detector: conjunction with the Sun\<close>

text \<open>
  No result of the Perfection Detector is a combustion denial: the denial is returned
  only for a position that has the attribute \<^verbatim>\<open>solar_condition\<close>.
\<close>

lemma direct_perfection_type:
  assumes "direct_perfection cfg chart querent quesited boost a = Some r"
  shows "pf_type r = Some ''direct'' \<or> pf_type r = Some ''direct_denied''"
  using assms
  by (auto simp: direct_perfection_def Let_def split: bind_splits if_splits)

lemma reception_perfection_type:
  assumes "reception_perfection cfg chart querent quesited boost = Some r"
  shows "pf_type r = Some ''reception'' \<or> pf_type r = None"
  using assms
  by (auto simp: reception_perfection_def Let_def split: bind_splits if_splits)

lemma indirect_perfection_type:
  assumes "indirect_perfection dse cfg chart querent quesited boost = Some r"
  shows "pf_type r \<in> {Some ''translation'', Some ''collection'', Some ''reception'', None}"
  using assms
  by (auto simp: indirect_perfection_def
      split: bind_splits option.splits dest: reception_perfection_type)

lemma never_combustion_denial:
  assumes "check_enhanced_perfection dse cfg chart querent quesited boost = Some r"
  shows "pf_type r \<noteq> Some ''combustion_denial''"
proof -
  have "pf_type r \<in> {Some ''direct'', Some ''direct_denied'', Some ''translation'',
                      Some ''collection'', Some ''reception'', None}"
    using assms
    by (auto simp: check_enhanced_perfection_def no_solar_condition Let_def
        split: bind_splits option.splits if_splits
        dest: direct_perfection_type reception_perfection_type indirect_perfection_type)
  then show ?thesis by auto
qed

text \<open>
  C2. The claim is that an applying conjunction of a significator with the Sun, when that
  significator is combust, is returned as a combustion denial and not as a perfection. In
  the chart below Mercury is half a degree from the Sun, applying, and its solar analysis
  is combustion: the Perfection Detector returns a favorable direct perfection by that
  conjunction with the confidence of a basic direct perfection.
\<close>

theorem combust_conjunction_perfects:
  "map_option (\<lambda>r. (perfects r, pf_type r, pf_favorable r, pf_confidence r, pf_reception r,
                     map_option fd_aspect (pf_aspect r), map_option fd_orb (pf_aspect r)))
     (check_enhanced_perfection days_to_sign_exit example_config combustion_chart SUN MERCURY 15)
     = Some (True, Some ''direct'', Some True, Some 80, Some ''none'', Some CONJUNCTION,
             Some (1 / 2))
   \<and> map_option (\<lambda>s. (condition s, distance_from_sun s))
        (map_of (solar_analyses combustion_chart) MERCURY) = Some (COMBUSTION, 1 / 2)
   \<and> map (\<lambda>a. (aspect a, applying a))
        (filter (\<lambda>a. planet1 a = SUN \<and> planet2 a = MERCURY) (aspects combustion_chart))
     = [(CONJUNCTION, True)]"
  by code_simp

subsection \<open>Judgment: void of course Moon\<close>

text \<open>
  What stage 1.5 of the judgment does for a chart that passed the radicality checks (or
  with these bypassed) whose Moon is void without exception: without the override the
  judgment is NO with confidence 85; with it the later stages run, entered with the
  running confidence cut to 30.
\<close>

lemma void_moon_denial_without_override:
  assumes "ignore_radicality ov
           \<or> check_enhanced_radicality cfg chart (ignore_saturn_7th ov) = Some (True, why)"
    and "\<not> ignore_void_moon ov"
    and "is_moon_void_of_course_enhanced cfg chart = Some v" and "void v" and "\<not> exception v"
    and "check_void_moon_overrides chart qa = Some False"
  shows "apply_enhanced_judgment dse cfg chart qa ov
         = Some (Judged \<lparr>jd_result = ''NO'', jd_confidence = 85,
                          jd_perfection_type = Some ''void_moon_denial''\<rparr>)"
  using assms by (auto simp: apply_enhanced_judgment_def)

lemma void_moon_override_cuts_running_confidence:
  assumes "ignore_radicality ov
           \<or> check_enhanced_radicality cfg chart (ignore_saturn_7th ov) = Some (True, why)"
    and "\<not> ignore_void_moon ov"
    and "is_moon_void_of_course_enhanced cfg chart = Some v" and "void v" and "\<not> exception v"
    and "check_void_moon_overrides chart qa = Some True"
  shows "apply_enhanced_judgment dse cfg chart qa ov
         = judgment_from_significators dse cfg chart qa ov
             (min (base_confidence (cfg_confidence cfg)) 30)"
  using assms by (auto simp: apply_enhanced_judgment_def)

text \<open>
  A chart that fails the radicality checks never reaches the void Moon stage.
\<close>

lemma not_radical_before_void_moon:
  assumes "\<not> ignore_radicality ov"
    and "check_enhanced_radicality cfg chart (ignore_saturn_7th ov) = Some (False, why)"
  shows "apply_enhanced_judgment dse cfg chart qa ov
         = Some (Judged \<lparr>jd_result = ''NOT RADICAL'', jd_confidence = 0,
                          jd_perfection_type = None\<rparr>)"
  using assms by (simp add: apply_enhanced_judgment_def)

text \<open>
  The override needs two different significators: the loop of
  \<^verbatim>\<open>check_moon_translation_clean\<close> never reaches its \<^verbatim>\<open>elif\<close> for the planet of its
  \<^verbatim>\<open>if\<close>.
\<close>

lemma moon_aspects_loop_same_planet:
  "snd (moon_aspects_loop p p xs (a, None)) = None"
  by (induction xs arbitrary: a) simp_all

lemma clean_translation_needs_two_planets:
  "check_moon_translation_clean chart p p = Some c \<Longrightarrow> \<not> c"
proof -
  assume c: "check_moon_translation_clean chart p p = Some c"
  obtain x y where xy: "moon_aspects_loop p p (aspects chart) (None, None) = (x, y)"
    by (cases "moon_aspects_loop p p (aspects chart) (None, None)")
  from moon_aspects_loop_same_planet [of p "aspects chart" None] xy have "y = None" by simp
  with c xy show "\<not> c"
    by (auto simp: check_moon_translation_clean_def split: bind_splits option.splits)
qed

text \<open>
  The stage of the Moon's next aspect computes its confidence afresh: a YES from it has a
  confidence of at least 60, whatever the running confidence was.
\<close>

lemma moon_next_aspect_yes_confidence:
  assumes "check_moon_next_aspect_to_significators cfg chart querent quesited flag = Some (Some r)"
    and "mn_result r = ''YES''"
  shows "mn_confidence r \<ge> 60"
  using assms
  by (auto simp: check_moon_next_aspect_to_significators_def Let_def
      split: option.splits if_splits bind_splits)

text \<open>The example chart, computed.\<close>

lemma void_moon_chart_value:
  "void_moon_chart =
   \<lparr>planets =
       [(SUN,
         \<lparr>planet = SUN, longitude = 220, latitude = 0, house = 8,
            sign = SCORPIO, dignity_score = 0, retrograde = False, speed = 1\<rparr>),
        (MOON,
         \<lparr>planet = MOON, longitude = 70, latitude = 0, house = 3,
            sign = GEMINI, dignity_score = 0, retrograde = False, speed = 13\<rparr>),
        (MERCURY,
         \<lparr>planet = MERCURY, longitude = 235, latitude = 0, house = 8,
            sign = SCORPIO, dignity_score = 0, retrograde = False, speed = 1\<rparr>),
        (VENUS,
         \<lparr>planet = VENUS, longitude = 193, latitude = 0, house = 7,
            sign = LIBRA, dignity_score = 0, retrograde = False,
            speed = 6 / 5\<rparr>),
        (MARS,
         \<lparr>planet = MARS, longitude = 165, latitude = 0, house = 6,
            sign = VIRGO, dignity_score = 0, retrograde = False,
            speed = 1 / 2\<rparr>),
        (JUPITER,
         \<lparr>planet = JUPITER, longitude = 320, latitude = 0, house = 11,
            sign = AQUARIUS, dignity_score = 0, retrograde = False,
            speed = 1 / 10\<rparr>),
        (SATURN,
         \<lparr>planet = SATURN, longitude = 350, latitude = 0, house = 12,
            sign = PISCES, dignity_score = 0, retrograde = False,
            speed = 1 / 20\<rparr>)],
       aspects =
         [\<lparr>planet1 = SUN, planet2 = MERCURY, aspect = CONJUNCTION, orb = 15,
             applying = False, exact_time = None, degrees_to_exact = 15\<rparr>,
          \<lparr>planet1 = SUN, planet2 = MARS, aspect = SEXTILE, orb = 5,
             applying = True, exact_time = None, degrees_to_exact = 5\<rparr>,
          \<lparr>planet1 = SUN, planet2 = JUPITER, aspect = SQUARE, orb = 10,
             applying = True, exact_time = None,
             degrees_to_exact = 10\<rparr>,
          \<lparr>planet1 = SUN, planet2 = SATURN, aspect = TRINE, orb = 10,
             applying = True, exact_time = None,
             degrees_to_exact = 10\<rparr>,
          \<lparr>planet1 = MOON, planet2 = MERCURY, aspect = OPPOSITION, orb = 15,
             applying = False, exact_time = None,
             degrees_to_exact = 15\<rparr>,
          \<lparr>planet1 = MOON, planet2 = VENUS, aspect = TRINE, orb = 3,
             applying = True, exact_time = None,
             degrees_to_exact = 3\<rparr>,
          \<lparr>planet1 = MOON, planet2 = MARS, aspect = SQUARE, orb = 5,
             applying = True, exact_time = None, degrees_to_exact = 5\<rparr>,
          \<lparr>planet1 = MOON, planet2 = JUPITER, aspect = TRINE, orb = 10,
             applying = True, exact_time = None,
             degrees_to_exact = 10\<rparr>,
          \<lparr>planet1 = MOON, planet2 = SATURN, aspect = SQUARE, orb = 10,
             applying = True, exact_time = None,
             degrees_to_exact = 10\<rparr>,
          \<lparr>planet1 = MERCURY, planet2 = MARS, aspect = SEXTILE, orb = 10,
             applying = False, exact_time = None, degrees_to_exact = 10\<rparr>,
          \<lparr>planet1 = MERCURY, planet2 = JUPITER, aspect = SQUARE, orb = 5,
             applying = False, exact_time = None,
             degrees_to_exact = 5\<rparr>,
          \<lparr>planet1 = MERCURY, planet2 = SATURN, aspect = TRINE, orb = 5,
             applying = False, exact_time = None,
             degrees_to_exact = 5\<rparr>,
          \<lparr>planet1 = VENUS, planet2 = JUPITER, aspect = TRINE, orb = 7,
             applying = True, exact_time = None,
             degrees_to_exact = 7\<rparr>,
          \<lparr>planet1 = MARS, planet2 = SATURN, aspect = OPPOSITION, orb = 5,
             applying = True, exact_time = None,
             degrees_to_exact = 5\<rparr>],
       houses = [10, 40, 70, 100, 130, 160, 190, 220, 250, 280, 310, 340],
       house_rulers =
         [(1, MARS), (2, VENUS), (3, MERCURY), (4, MOON), (5, SUN),
          (6, MERCURY), (7, VENUS), (8, MARS), (9, JUPITER), (10, SATURN),
          (11, SATURN), (12, JUPITER)],
       ascendant = 10, midheaven = 280,
       solar_analyses =
         [(SUN,
           \<lparr>sa_planet = SUN, distance_from_sun = 0, condition = FREE,
              exact_cazimi = False, traditional_exception = False\<rparr>),
          (MOON,
           \<lparr>sa_planet = MOON, distance_from_sun = 150, condition = FREE,
              exact_cazimi = False, traditional_exception = False\<rparr>),
          (MERCURY,
           \<lparr>sa_planet = MERCURY, distance_from_sun = 15, condition = FREE,
              exact_cazimi = False, traditional_exception = False\<rparr>),
          (VENUS,
           \<lparr>sa_planet = VENUS, distance_from_sun = 27, condition = FREE,
              exact_cazimi = False, traditional_exception = False\<rparr>),
          (MARS,
           \<lparr>sa_planet = MARS, distance_from_sun = 55, condition = FREE,
              exact_cazimi = False, traditional_exception = False\<rparr>),
          (JUPITER,
           \<lparr>sa_planet = JUPITER, distance_from_sun = 100, condition = FREE,
              exact_cazimi = False, traditional_exception = False\<rparr>),
          (SATURN,
           \<lparr>sa_planet = SATURN, distance_from_sun = 130, condition = FREE,
              exact_cazimi = False, traditional_exception = False\<rparr>)],
       julian_day = 0, moon_last_aspect = None,
       moon_next_aspect =
         Some
          \<lparr>la_planet = VENUS, la_aspect = TRINE, la_orb = 3,
             degrees_difference = 3, perfection_eta_days = Some (15 / 59),
             perfection_eta_description = [S ''Within hours''],
             la_applying = True\<rparr>\<rparr>"
  by code_simp

text \<open>
  C1. The claim is that with a void Moon, no exception and no override flag the judgment
  is NO with high confidence, unless the Moon translates cleanly, and that then a positive
  outcome has its confidence capped at 30. In the chart below (void rule \<open>by_orb\<close>) the
  Moon is void without exception and applies to both significators with dignity 0, so the
  override holds and the running confidence is cut to 30; no perfection is found, and the
  stage of the Moon's next aspect, a trine to Venus, returns YES with its own confidence:
  75, less 15 for the void Moon.
\<close>

theorem void_moon_override_yes_above_cap:
  "apply_enhanced_judgment days_to_sign_exit by_orb_config void_moon_chart seventh_house_question
       no_overrides
     = Some (Judged \<lparr>jd_result = ''YES'', jd_confidence = 60,
                      jd_perfection_type = Some ''moon_next_aspect''\<rparr>)
   \<and> map_option (\<lambda>v. (void v, exception v))
        (is_moon_void_of_course_enhanced by_orb_config void_moon_chart) = Some (True, False)
   \<and> check_void_moon_overrides void_moon_chart seventh_house_question = Some True
   \<and> map_option fst (check_enhanced_radicality by_orb_config void_moon_chart False) = Some True
   \<and> map_option (\<lambda>a. (la_planet a, la_aspect a, la_orb a)) (moon_next_aspect void_moon_chart)
     = Some (VENUS, TRINE, 3)
   \<and> map (\<lambda>a. (planet2 a, aspect a, orb a, applying a))
        (filter (\<lambda>a. planet1 a = MOON \<and> planet2 a \<in> set [MARS, VENUS]) (aspects void_moon_chart))
     = [(VENUS, TRINE, 3, True), (MARS, SQUARE, 5, True)]"
  unfolding void_moon_chart_value by code_simp

end
